theory Spec2Isabelle
  imports Complex_Main "HOL-Library.AList" "HOL-Library.Char_ord" "HOL-Library.List_Lexorder"
begin

section \<open>Data model (types/templates.ts, types/staff.ts, types/checklist.ts)\<close>

text \<open>
  Conventions of the embedding.
  \<^item> Field names are global in HOL, so every record field carries a short prefix naming
    its TypeScript interface (\<open>ci_status\<close> is \<^verbatim>\<open>ChecklistInstance.status\<close>).
  \<^item> An ISO-8601 timestamp written by \<^verbatim>\<open>new Date().toISOString()\<close> is modelled as
    the instant it denotes, in milliseconds since the epoch (\<open>int\<close>);
    \<^verbatim>\<open>new Date(s).getTime()\<close> is then the identity.
  \<^item> An optional property is an \<open>option\<close>; \<open>None\<close> is \<^verbatim>\<open>undefined\<close>.
  \<^item> A JavaScript number that counts something is a \<open>nat\<close>; one that may be
    negative is an \<open>int\<close>. The quotient and the product in the completion percentage
    are rounded as the doubles they are (section on JavaScript numbers). The one other
    quotient, milliseconds by 1000 in the lockout seconds, is taken exactly: the
    difference of two dates is a whole number below \<open>2^53\<close>, and for these the
    rounding of the quotient does not change what \<^verbatim>\<open>Math.ceil\<close> returns.
  \<^item> Interface fields that none of the modelled operations reads or writes are left
    out and named where the record is declared.
\<close>

datatype TemplateId = pass_opening | floor_opening | closing

datatype ChecklistStatus = in_progress | pending_review | approved | synced | sync_failed

text \<open>\<^verbatim>\<open>TaskCompletionStatus = 'done' | 'not_done' | 'na'\<close>.\<close>

datatype TaskCompletionStatus = task_done | task_not_done | task_na

datatype StaffRole = staff | manager

record StaffReference =
  ref_id :: string
  ref_name :: string
  ref_role :: StaffRole

record TaskCompletion =
  tc_taskId :: string
  tc_status :: TaskCompletionStatus
  tc_completedAt :: "int option"
  tc_note :: "string option"
  tc_inputValue :: "rat option"
  tc_completedBy :: "StaffReference option"

text \<open>
  \<^verbatim>\<open>ChecklistInstance\<close>, as a row of the \<^verbatim>\<open>checklists\<close> table.
  \<^verbatim>\<open>tasks: Record<string, TaskCompletion>\<close> is an association list in insertion
  order, the order \<^verbatim>\<open>Object.values\<close> enumerates. The interface declares
  \<^verbatim>\<open>startedBy\<close> as required, but a row holds whatever object was put: the
  checklist page stores rows that carry a \<^verbatim>\<open>staff\<close> property and no
  \<^verbatim>\<open>startedBy\<close> (\<open>loadData\<close> below). So \<open>ci_startedBy\<close> is optional, and
  \<open>ci_staff\<close> is that extra property. The optional \<^verbatim>\<open>contributors\<close>,
  \<^verbatim>\<open>syncedAt\<close> and \<^verbatim>\<open>forceClosedBy\<close> are left out.
\<close>

record ChecklistInstance =
  ci_id :: string
  ci_templateId :: TemplateId
  ci_templateName :: string
  ci_status :: ChecklistStatus
  ci_startedBy :: "StaffReference option"
  ci_staff :: "StaffReference option"
  ci_manager :: "StaffReference option"
  ci_deviceId :: string
  ci_tasks :: "(string \<times> TaskCompletion) list"
  ci_completionPercentage :: int
  ci_doneCount :: nat
  ci_notDoneCount :: nat
  ci_naCount :: nat
  ci_totalTasks :: nat
  ci_startedAt :: int
  ci_lastModifiedAt :: int
  ci_submittedAt :: "int option"
  ci_approvedAt :: "int option"
  ci_shiftNotes :: "string option"

record ActiveSession =
  as_checklistId :: string
  as_templateId :: TemplateId
  as_templateName :: string
  as_staffName :: string
  as_deviceId :: string
  as_startedAt :: int
  as_lastActivityAt :: int
  as_completionPercentage :: int
  as_isOwnDevice :: bool

text \<open>
  \<^verbatim>\<open>DutyTask\<close>, \<^verbatim>\<open>TemplateSection\<close>, \<^verbatim>\<open>DutyTemplate\<close>: the identifiers, the
  name and the \<^verbatim>\<open>totalTasks\<close> constant; titles, areas, order and presentation
  fields are left out.
\<close>

record DutyTask =
  dt_id :: string

record TemplateSection =
  sec_id :: string
  sec_tasks :: "DutyTask list"

record DutyTemplate =
  tpl_id :: TemplateId
  tpl_name :: string
  tpl_totalTasks :: nat
  tpl_sections :: "TemplateSection list"

section \<open>The hardcoded templates (lib/constants/templates.ts)\<close>

definition task :: "string \<Rightarrow> DutyTask" where
  "task i = \<lparr>dt_id = i\<rparr>"

definition PASS_OPENING_TEMPLATE :: DutyTemplate where
  "PASS_OPENING_TEMPLATE =
     \<lparr>tpl_id = pass_opening, tpl_name = ''Pass Opening Checklist'', tpl_totalTasks = 32,
      tpl_sections =
       [\<lparr>sec_id = ''pass_initial'', sec_tasks = map task
           [''pass_1'', ''pass_2'', ''pass_3'']\<rparr>,
        \<lparr>sec_id = ''pass_food_pass'', sec_tasks = map task
           [''pass_4'', ''pass_5'', ''pass_6'', ''pass_7'']\<rparr>,
        \<lparr>sec_id = ''pass_prep_area'', sec_tasks = map task
           [''pass_8'', ''pass_9'', ''pass_10'', ''pass_11'', ''pass_12'', ''pass_13'']\<rparr>,
        \<lparr>sec_id = ''pass_mise_en_place'', sec_tasks = map task
           [''pass_14'', ''pass_15'', ''pass_16'', ''pass_17'', ''pass_18'', ''pass_19'']\<rparr>,
        \<lparr>sec_id = ''pass_drinks_pass'', sec_tasks = map task
           [''pass_20'', ''pass_21'', ''pass_22'', ''pass_23'', ''pass_24'']\<rparr>,
        \<lparr>sec_id = ''pass_stock_check'', sec_tasks = map task
           [''pass_25'', ''pass_26'', ''pass_27'', ''pass_28'', ''pass_29'', ''pass_30'',
            ''pass_31'']\<rparr>,
        \<lparr>sec_id = ''pass_kitchen_refill'', sec_tasks = map task
           [''pass_32'', ''pass_33'', ''pass_34'']\<rparr>]\<rparr>"

definition FLOOR_OPENING_TEMPLATE :: DutyTemplate where
  "FLOOR_OPENING_TEMPLATE =
     \<lparr>tpl_id = floor_opening, tpl_name = ''Floor Opening Checklist'', tpl_totalTasks = 30,
      tpl_sections =
       [\<lparr>sec_id = ''floor_main'', sec_tasks = map task
           [''floor_1'', ''floor_2'', ''floor_3'', ''floor_4'', ''floor_5'', ''floor_6'',
            ''floor_7'', ''floor_8'', ''floor_9'', ''floor_10'', ''floor_11'', ''floor_12'',
            ''floor_13'', ''floor_14'', ''floor_15'']\<rparr>,
        \<lparr>sec_id = ''floor_stations'', sec_tasks = map task
           [''floor_16'', ''floor_17'', ''floor_18'', ''floor_19'', ''floor_20'',
            ''floor_21'', ''floor_22'', ''floor_23'', ''floor_24'', ''floor_25'',
            ''floor_26'', ''floor_27'', ''floor_28'', ''floor_29'']\<rparr>,
        \<lparr>sec_id = ''floor_terrace'', sec_tasks = map task
           [''floor_30'', ''floor_31'', ''floor_32'', ''floor_33'', ''floor_34'',
            ''floor_35'']\<rparr>]\<rparr>"

definition CLOSING_TEMPLATE :: DutyTemplate where
  "CLOSING_TEMPLATE =
     \<lparr>tpl_id = closing, tpl_name = ''Closing Checklist'', tpl_totalTasks = 38,
      tpl_sections =
       [\<lparr>sec_id = ''close_station_1'', sec_tasks = map task
           [''close_1'', ''close_2'', ''close_3'', ''close_4'']\<rparr>,
        \<lparr>sec_id = ''close_station_3'', sec_tasks = map task
           [''close_5'', ''close_6'', ''close_7'', ''close_8'']\<rparr>,
        \<lparr>sec_id = ''close_station_456'', sec_tasks = map task
           [''close_9'', ''close_10'', ''close_11'', ''close_12'', ''close_13'']\<rparr>,
        \<lparr>sec_id = ''close_drink_pass'', sec_tasks = map task
           [''close_14'', ''close_15'', ''close_16'', ''close_17'', ''close_18'',
            ''close_19'']\<rparr>,
        \<lparr>sec_id = ''close_floor_cleaning'', sec_tasks = map task
           [''close_20'', ''close_21'', ''close_22'', ''close_23'', ''close_24'',
            ''close_25'', ''close_26'', ''close_27'', ''close_28'']\<rparr>,
        \<lparr>sec_id = ''close_terrace'', sec_tasks = map task
           [''close_29'', ''close_30'', ''close_31'', ''close_32'', ''close_33'',
            ''close_34'']\<rparr>,
        \<lparr>sec_id = ''close_food_pass'', sec_tasks = map task
           [''close_35'', ''close_36'', ''close_37'', ''close_38'', ''close_39'',
            ''close_40'', ''close_41'', ''close_42'', ''close_43'', ''close_44'']\<rparr>,
        \<lparr>sec_id = ''close_final'', sec_tasks = map task
           [''close_45'', ''close_46'', ''close_47'', ''close_48'', ''close_49'']\<rparr>]\<rparr>"

definition getTemplate :: "TemplateId \<Rightarrow> DutyTemplate" where
  "getTemplate i =
     (case i of pass_opening \<Rightarrow> PASS_OPENING_TEMPLATE
      | floor_opening \<Rightarrow> FLOOR_OPENING_TEMPLATE
      | closing \<Rightarrow> CLOSING_TEMPLATE)"

text \<open>\<^verbatim>\<open>template.sections.flatMap(section => section.tasks.map(task => task.id))\<close>\<close>

definition getAllTaskIds :: "DutyTemplate \<Rightarrow> string list" where
  "getAllTaskIds template =
     concat (map (\<lambda>section. map dt_id (sec_tasks section)) (tpl_sections template))"

section \<open>Sync configuration and retry backoff (types/sync.ts)\<close>

text \<open>
  \<^verbatim>\<open>SYNC_CONFIG\<close> of types/sync.ts. Delays are JavaScript numbers holding whole
  milliseconds; they are modelled as natural numbers.
\<close>

definition MAX_RETRIES :: nat where
  "MAX_RETRIES = 5"

definition BASE_RETRY_DELAY_MS :: nat where
  "BASE_RETRY_DELAY_MS = 1000"

definition MAX_RETRY_DELAY_MS :: nat where
  "MAX_RETRY_DELAY_MS = 60000"

definition BACKOFF_MULTIPLIER :: nat where
  "BACKOFF_MULTIPLIER = 2"

text \<open>
  \<^verbatim>\<open>calculateRetryDelay(retryCount)\<close>: \<^verbatim>\<open>Math.pow\<close> on a natural exponent is the
  power, \<^verbatim>\<open>Math.min\<close> is the minimum.
\<close>

definition calculateRetryDelay :: "nat \<Rightarrow> nat" where
  "calculateRetryDelay retryCount =
     (let delay = BASE_RETRY_DELAY_MS * BACKOFF_MULTIPLIER ^ retryCount
      in min delay MAX_RETRY_DELAY_MS)"

section \<open>Completion statistics (types/checklist.ts)\<close>

record CompletionStats =
  stats_doneCount :: nat
  stats_notDoneCount :: nat
  stats_naCount :: nat
  stats_completionPercentage :: int

text \<open>\<^verbatim>\<open>Object.values(tasks)\<close>: the values in insertion order.\<close>

definition Object_values :: "(string \<times> 'v) list \<Rightarrow> 'v list" where
  "Object_values obj = map snd obj"

text \<open>
  The body of the \<^verbatim>\<open>forEach\<close>: the \<^verbatim>\<open>switch\<close> on \<^verbatim>\<open>task.status\<close> bumps one of
  the three counters (doneCount, notDoneCount, naCount).
\<close>

fun count_task :: "nat \<times> nat \<times> nat \<Rightarrow> TaskCompletion \<Rightarrow> nat \<times> nat \<times> nat" where
  "count_task (doneCount, notDoneCount, naCount) t =
     (case tc_status t of
        task_done \<Rightarrow> (Suc doneCount, notDoneCount, naCount)
      | task_not_done \<Rightarrow> (doneCount, Suc notDoneCount, naCount)
      | task_na \<Rightarrow> (doneCount, notDoneCount, Suc naCount))"

text \<open>
  JavaScript numbers are IEEE-754 doubles. A whole number below \<open>2^53\<close> is held
  exactly; a quotient or a product is the exact result rounded to the nearest double,
  a tie going to the double whose significand is even. A positive double is
  \<open>m / 2^k\<close> for a natural number \<open>m\<close> of at most 53 bits and an integer \<open>k\<close>;
  the pair \<open>(m, k)\<close> stands for it, and \<open>(0, 0)\<close> for zero.

  \<^item> \<open>floor_log2 n\<close> is the position of the highest bit of \<open>n\<close>.
  \<open>scaled p q k\<close> is the fraction \<open>p / q\<close> times \<open>2^k\<close>, as numerator and
  denominator. \<open>round_half_even n d\<close> is \<open>n / d\<close> rounded to the nearest whole
  number, a tie to the even one.
  \<^item> \<open>double_nearest p q\<close> is the double nearest to \<open>p / q\<close>, for natural numbers
  \<open>p\<close> and \<open>q > 0\<close>: the fraction is scaled into the range from \<open>2^52\<close> up to
  \<open>2^53\<close> and rounded there. (Overflow and subnormal results are out of reach of
  quotients of whole numbers below \<open>2^53\<close> and of their hundredfold. The code
  divides only by a positive number; \<open>q = 0\<close> is given the value zero.)
  \<^item> \<open>double_times x c\<close> is the double nearest to the product of the double \<open>x\<close> and
  the whole number \<open>c\<close>; \<open>double_value\<close> is the number a pair stands for.
\<close>

fun floor_log2 :: "nat \<Rightarrow> nat" where
  "floor_log2 n = (if n < 2 then 0 else Suc (floor_log2 (n div 2)))"

declare floor_log2.simps [simp del]

definition scaled :: "nat \<Rightarrow> nat \<Rightarrow> int \<Rightarrow> nat \<times> nat" where
  "scaled p q k = (if k \<ge> 0 then (p * 2 ^ nat k, q) else (p, q * 2 ^ nat (- k)))"

definition round_half_even :: "nat \<Rightarrow> nat \<Rightarrow> nat" where
  "round_half_even n d =
     (let t = n div d; r = n mod d
      in if 2 * r < d then t else if 2 * r > d then t + 1
         else if even t then t else t + 1)"

definition double_nearest :: "nat \<Rightarrow> nat \<Rightarrow> nat \<times> int" where
  "double_nearest p q =
     (if p = 0 \<or> q = 0 then (0, 0)
      else let k0 = int (floor_log2 q) + 52 - int (floor_log2 p);
               k = (if fst (scaled p q k0) < 2 ^ 52 * snd (scaled p q k0) then k0 + 1 else k0)
           in (round_half_even (fst (scaled p q k)) (snd (scaled p q k)), k))"

definition double_times :: "nat \<times> int \<Rightarrow> nat \<Rightarrow> nat \<times> int" where
  "double_times x c =
     (case x of (m, k) \<Rightarrow>
        if k \<ge> 0 then double_nearest (m * c) (2 ^ nat k)
        else double_nearest (m * c * 2 ^ nat (- k)) 1)"

definition double_value :: "nat \<times> int \<Rightarrow> rat" where
  "double_value x =
     (case x of (m, k) \<Rightarrow>
        if k \<ge> 0 then of_nat m / 2 ^ nat k else of_nat m * 2 ^ nat (- k))"

text \<open>
  \<^verbatim>\<open>Math.round\<close> returns the nearest integer, a half going towards plus infinity;
  \<^verbatim>\<open>Math.ceil\<close> the least integer not below.
\<close>

definition Math_round :: "rat \<Rightarrow> int" where
  "Math_round x = \<lfloor>x + 1 / 2\<rfloor>"

definition Math_ceil :: "rat \<Rightarrow> int" where
  "Math_ceil x = \<lceil>x\<rceil>"

text \<open>
  \<^verbatim>\<open>calculateCompletionStats(tasks, totalTasks)\<close>. The percentage is
  \<^verbatim>\<open>Math.round((doneCount / applicableTasks) * 100)\<close>: the quotient is rounded to a
  double, its hundredfold is rounded to a double, and that is rounded to an integer.
\<close>

definition calculateCompletionStats ::
  "(string \<times> TaskCompletion) list \<Rightarrow> nat \<Rightarrow> CompletionStats" where
  "calculateCompletionStats tasks totalTasks =
     (case foldl count_task (0, 0, 0) (Object_values tasks) of
        (doneCount, notDoneCount, naCount) \<Rightarrow>
          let applicableTasks = int totalTasks - int naCount;
              completionPercentage =
                (if applicableTasks > 0
                 then Math_round
                        (double_value
                           (double_times (double_nearest doneCount (nat applicableTasks)) 100))
                 else 100)
          in \<lparr>stats_doneCount = doneCount, stats_notDoneCount = notDoneCount,
               stats_naCount = naCount,
               stats_completionPercentage = completionPercentage\<rparr>)"

section \<open>The local database and its environment (lib/db)\<close>

text \<open>
  Exceptions are values. \<open>RangeError\<close> is what the engine throws when the call stack
  is exhausted; \<open>TypeError\<close> is calling something that is not a function, or reading a
  property of \<^verbatim>\<open>null\<close>; \<open>SyntaxError\<close> is \<^verbatim>\<open>request.json()\<close> on a malformed body.
\<close>

datatype js_error = RangeError | TypeError | SyntaxError

text \<open>\<^verbatim>\<open>DeviceConfig\<close>, without \<^verbatim>\<open>appVersion\<close> and \<^verbatim>\<open>lastOnlineAt\<close>.\<close>

record DeviceConfig =
  dc_deviceId :: string
  dc_pinSalt :: string
  dc_installedAt :: int

text \<open>
  A row of the \<^verbatim>\<open>staff\<close> table, \<^verbatim>\<open>StaffMember | Manager\<close>: the three manager
  properties are absent on plain staff. \<^verbatim>\<open>addedBy\<close> and \<^verbatim>\<open>deactivatedBy\<close> are left out.
\<close>

record StaffRecord =
  st_id :: string
  st_name :: string
  st_role :: StaffRole
  st_active :: bool
  st_createdAt :: int
  st_deactivatedAt :: "int option"
  st_pinHash :: "string option"
  st_failedAttempts :: "nat option"
  st_lockedUntil :: "int option"

datatype AuditAction =
    staff_added | staff_deactivated | staff_reactivated | manager_added | pin_changed
  | checklist_started | checklist_submitted | checklist_approved | session_force_closed
  | audit_sync_failed | sync_completed

datatype EntityType = entity_staff | entity_checklist | entity_submission

record AuditLogEntry =
  al_id :: string
  al_action :: AuditAction
  al_entityId :: string
  al_entityType :: EntityType
  al_performedBy :: "string option"
  al_details :: "(string \<times> string) list"
  al_timestamp :: int
  al_deviceId :: string

text \<open>The outbox record types of types/sync.ts, the rows of the \<^verbatim>\<open>submissions\<close> table.\<close>

datatype SubmissionStatus = sub_pending | sheets_done | complete | failed

datatype PdfStatus = pdf_pending | generated | uploaded | pdf_failed

datatype SyncStep = sheets_write | pdf_generate | pdf_upload | sheets_update

record SyncError =
  se_timestamp :: int
  se_step :: SyncStep
  se_message :: string
  se_statusCode :: "nat option"
  se_retryable :: bool

record SubmissionSnapshot =
  ss_date :: string
  ss_area :: string
  ss_templateName :: string
  ss_templateId :: TemplateId
  ss_staff :: StaffReference
  ss_manager :: StaffReference
  ss_completionPercentage :: int
  ss_doneCount :: nat
  ss_notDoneCount :: nat
  ss_naCount :: nat
  ss_totalTasks :: nat
  ss_startedAt :: int
  ss_submittedAt :: int
  ss_approvedAt :: int
  ss_shiftNotes :: "string option"
  ss_tasks :: "(string \<times> TaskCompletion) list"
  ss_deviceId :: string

record PendingSubmission =
  ps_id :: string
  ps_checklistId :: string
  ps_status :: SubmissionStatus
  ps_pdfStatus :: PdfStatus
  ps_sheetsRowId :: "string option"
  ps_driveFileId :: "string option"
  ps_driveFileUrl :: "string option"
  ps_retryCount :: nat
  ps_maxRetries :: nat
  ps_createdAt :: int
  ps_lastAttemptAt :: "int option"
  ps_completedAt :: "int option"
  ps_errorLog :: "SyncError list"
  ps_snapshot :: SubmissionSnapshot

text \<open>
  Everything an operation can read or change outside its arguments: the five Dexie
  tables the code touches (\<^verbatim>\<open>deviceConfig\<close> is a singleton; \<open>db_checklists\<close> is
  the list of rows in the order the table enumerates them, by primary key \<^verbatim>\<open>id\<close>;
  the other tables are only read by key or written), the clock, whether the browser provides
  \<^verbatim>\<open>crypto.randomUUID\<close>, and the source of random identifiers (\<open>randomSource w k\<close> is
  the \<open>k\<close>-th identifier drawn, by \<^verbatim>\<open>crypto.randomUUID\<close> or by the
  \<^verbatim>\<open>Math.random\<close> fallback). The clock is read, never advanced: one operation sees one
  instant.
\<close>

record world =
  hasRandomUUID :: bool
  randomSource :: "nat \<Rightarrow> string"
  randomDrawn :: nat
  clock :: int
  db_deviceConfig :: "DeviceConfig option"
  db_staff :: "StaffRecord list"
  db_checklists :: "ChecklistInstance list"
  db_submissions :: "PendingSubmission list"
  db_auditLog :: "AuditLogEntry list"

text \<open>
  \<^verbatim>\<open>generateUUID\<close> of lib/db:
  \<^verbatim>\<open>
  function generateUUID(): string {
    if (typeof crypto !== 'undefined' && typeof crypto.randomUUID === 'function') {
      return generateUUID();
    }
    return 'xxxxxxxx-xxxx-4xxx-yxxx-xxxxxxxxxxxx'.replace(/[xy]/g, ...Math.random()...);
  }
  \<close>
  The first branch calls the function itself, not \<^verbatim>\<open>crypto.randomUUID()\<close>. The
  recursion is kept as written; \<open>None\<close> is the call that never returns, which the
  engine ends with a \<open>RangeError\<close>.
\<close>

partial_function (option) generateUUID :: "world \<Rightarrow> (string \<times> world) option" where
  "generateUUID w =
     (if hasRandomUUID w then generateUUID w
      else Some (randomSource w (randomDrawn w), w\<lparr>randomDrawn := Suc (randomDrawn w)\<rparr>))"

text \<open>A direct call \<^verbatim>\<open>crypto.randomUUID()\<close>, as the session store makes it.\<close>

definition crypto_randomUUID :: "world \<Rightarrow> (js_error + string) \<times> world" where
  "crypto_randomUUID w =
     (if hasRandomUUID w
      then (Inr (randomSource w (randomDrawn w)), w\<lparr>randomDrawn := Suc (randomDrawn w)\<rparr>)
      else (Inl TypeError, w))"

definition initializeDeviceConfig :: "world \<Rightarrow> (js_error + DeviceConfig) \<times> world" where
  "initializeDeviceConfig w =
     (case db_deviceConfig w of
        Some existing \<Rightarrow> (Inr existing, w)
      | None \<Rightarrow>
          (case generateUUID w of
             None \<Rightarrow> (Inl RangeError, w)
           | Some (u1, w1) \<Rightarrow>
               (case generateUUID w1 of
                  None \<Rightarrow> (Inl RangeError, w1)
                | Some (u2, w2) \<Rightarrow>
                    let config = \<lparr>dc_deviceId = u1, dc_pinSalt = u2, dc_installedAt = clock w2\<rparr>
                    in (Inr config, w2\<lparr>db_deviceConfig := Some config\<rparr>))))"

definition getDeviceId :: "world \<Rightarrow> (js_error + string) \<times> world" where
  "getDeviceId w =
     (case initializeDeviceConfig w of
        (Inl e, w') \<Rightarrow> (Inl e, w')
      | (Inr config, w') \<Rightarrow> (Inr (dc_deviceId config), w'))"

definition getPinSalt :: "world \<Rightarrow> (js_error + string) \<times> world" where
  "getPinSalt w =
     (case initializeDeviceConfig w of
        (Inl e, w') \<Rightarrow> (Inl e, w')
      | (Inr config, w') \<Rightarrow> (Inr (dc_pinSalt config), w'))"

text \<open>
  \<^verbatim>\<open>logAuditEntry(entry)\<close>: the caller gives action, entity, performer and details;
  id, timestamp and device id are added here. \<^verbatim>\<open>db.auditLog.add\<close> adds the row;
  \<open>db_auditLog\<close> lists the rows in the order they were added.
\<close>

definition logAuditEntry ::
  "AuditAction \<Rightarrow> string \<Rightarrow> EntityType \<Rightarrow> string option \<Rightarrow> (string \<times> string) list
     \<Rightarrow> world \<Rightarrow> (js_error + unit) \<times> world" where
  "logAuditEntry action entityId entityType performedBy details w =
     (case getDeviceId w of
        (Inl e, w1) \<Rightarrow> (Inl e, w1)
      | (Inr deviceId, w1) \<Rightarrow>
          (case generateUUID w1 of
             None \<Rightarrow> (Inl RangeError, w1)
           | Some (u, w2) \<Rightarrow>
               (Inr (),
                w2\<lparr>db_auditLog := db_auditLog w2 @
                  [\<lparr>al_id = u, al_action = action, al_entityId = entityId,
                    al_entityType = entityType, al_performedBy = performedBy,
                    al_details = details, al_timestamp = clock w2,
                    al_deviceId = deviceId\<rparr>]\<rparr>)))"

text \<open>
  \<^verbatim>\<open>db.checklists.put(c)\<close> and \<^verbatim>\<open>db.staff.update(id, changes)\<close>: \<^verbatim>\<open>put\<close> replaces the
  row with the same primary key, or adds the row where its key belongs: IndexedDB
  keeps and enumerates the rows in the order of their keys, and string keys compare
  character by character (the order \<open><\<close> on strings). \<^verbatim>\<open>update\<close> changes the row
  with that key, if there is one. The store itself is taken to work: neither throws.
\<close>

fun checklists_put :: "ChecklistInstance \<Rightarrow> ChecklistInstance list \<Rightarrow> ChecklistInstance list" where
  "checklists_put c [] = [c]"
| "checklists_put c (x # xs) =
     (if ci_id x = ci_id c then c # xs
      else if ci_id c < ci_id x then c # x # xs
      else x # checklists_put c xs)"

definition checklists_get :: "string \<Rightarrow> world \<Rightarrow> ChecklistInstance option" where
  "checklists_get k w = find (\<lambda>c. ci_id c = k) (db_checklists w)"

definition staff_get :: "string \<Rightarrow> world \<Rightarrow> StaffRecord option" where
  "staff_get k w = find (\<lambda>r. st_id r = k) (db_staff w)"

definition staff_update :: "string \<Rightarrow> (StaffRecord \<Rightarrow> StaffRecord) \<Rightarrow> world \<Rightarrow> world" where
  "staff_update k changes w =
     w\<lparr>db_staff := map (\<lambda>r. if st_id r = k then changes r else r) (db_staff w)\<rparr>"

section \<open>Session store (lib/stores/useSessionStore.ts)\<close>

text \<open>
  The store's state. \<^verbatim>\<open>error\<close> holds \<^verbatim>\<open>error.message\<close> of a caught exception
  (\<open>Thrown e\<close>) or a fixed text (\<open>Message s\<close>). \<^verbatim>\<open>otherDeviceSessions\<close> is never
  written and is left out.
\<close>

datatype error_text = Thrown js_error | Message string

record SessionState =
  currentChecklist :: "ChecklistInstance option"
  isLoading :: bool
  error :: "error_text option"

text \<open>
  \<^verbatim>\<open>Object.fromEntries(entries)\<close>: the entries are assigned one after the other; a key
  assigned again keeps its place and takes the new value.
\<close>

definition fromEntries :: "(string \<times> 'v) list \<Rightarrow> (string \<times> 'v) list" where
  "fromEntries entries = foldl (\<lambda>obj (k, v). AList.update k v obj) [] entries"

definition TemplateId_literal :: "TemplateId \<Rightarrow> string" where
  "TemplateId_literal i =
     (case i of pass_opening \<Rightarrow> ''pass_opening'' | floor_opening \<Rightarrow> ''floor_opening''
      | closing \<Rightarrow> ''closing'')"

text \<open>\<^verbatim>\<open>taskIds.map((id) => [id, { taskId: id, status }])\<close>\<close>

definition blank_entries :: "TaskCompletionStatus \<Rightarrow> string list \<Rightarrow> (string \<times> TaskCompletion) list" where
  "blank_entries status taskIds =
     map (\<lambda>i. (i, \<lparr>tc_taskId = i, tc_status = status, tc_completedAt = None,
                     tc_note = None, tc_inputValue = None, tc_completedBy = None\<rparr>)) taskIds"

text \<open>
  \<^verbatim>\<open>startChecklist(templateId, staff)\<close>. The local \<^verbatim>\<open>tasks\<close> object that the first
  \<^verbatim>\<open>forEach\<close> fills is never read and is left out. The instance is first built with
  every task \<^verbatim>\<open>'done'\<close> and zero counters, then its task map is replaced by the
  \<^verbatim>\<open>'not_done'\<close> one and the counters are recomputed. Any exception lands in the
  \<^verbatim>\<open>catch\<close>, which records the message and clears \<^verbatim>\<open>isLoading\<close>.
\<close>

definition startChecklist ::
  "TemplateId \<Rightarrow> StaffReference \<Rightarrow> SessionState \<times> world \<Rightarrow> SessionState \<times> world" where
  "startChecklist templateId staffRef sw =
     (let s0 = (fst sw)\<lparr>isLoading := True, error := None\<rparr>;
          caught = (\<lambda>e. s0\<lparr>error := Some (Thrown e), isLoading := False\<rparr>)
      in case getDeviceId (snd sw) of
           (Inl e, w1) \<Rightarrow> (caught e, w1)
         | (Inr deviceId, w1) \<Rightarrow>
             let template = getTemplate templateId;
                 taskIds = getAllTaskIds template;
                 now = clock w1
             in (case crypto_randomUUID w1 of
                   (Inl e, w2) \<Rightarrow> (caught e, w2)
                 | (Inr uuid, w2) \<Rightarrow>
                     let checklist0 =
                           \<lparr>ci_id = uuid, ci_templateId = templateId,
                            ci_templateName = tpl_name template, ci_status = in_progress,
                            ci_startedBy = Some staffRef, ci_staff = None,
                            ci_manager = None, ci_deviceId = deviceId,
                            ci_tasks = fromEntries (blank_entries task_done taskIds),
                            ci_completionPercentage = 0, ci_doneCount = 0,
                            ci_notDoneCount = 0, ci_naCount = 0,
                            ci_totalTasks = tpl_totalTasks template,
                            ci_startedAt = now, ci_lastModifiedAt = now,
                            ci_submittedAt = None, ci_approvedAt = None,
                            ci_shiftNotes = None\<rparr>;
                         checklist1 =
                           checklist0\<lparr>ci_tasks := fromEntries (blank_entries task_not_done taskIds)\<rparr>;
                         stats = calculateCompletionStats (ci_tasks checklist1) (ci_totalTasks checklist1);
                         checklist =
                           checklist1\<lparr>ci_doneCount := stats_doneCount stats,
                                      ci_notDoneCount := stats_notDoneCount stats,
                                      ci_naCount := stats_naCount stats,
                                      ci_completionPercentage := stats_completionPercentage stats\<rparr>;
                         w3 = w2\<lparr>db_checklists := checklists_put checklist (db_checklists w2)\<rparr>
                     in (case logAuditEntry checklist_started (ci_id checklist) entity_checklist
                                (Some (ref_id staffRef))
                                [(''templateId'', TemplateId_literal templateId),
                                 (''templateName'', tpl_name template)] w3 of
                           (Inl e, w4) \<Rightarrow> (caught e, w4)
                         | (Inr u, w4) \<Rightarrow>
                             (s0\<lparr>currentChecklist := Some checklist, isLoading := False\<rparr>, w4))))"

text \<open>
  \<^verbatim>\<open>updateTask(taskId, status, note, inputValue)\<close>. The new entry is written over the
  old one under \<^verbatim>\<open>taskId\<close> (or added, for a new key), the counters are recomputed from
  the whole map, and the instance is stored and becomes the current one.
  \<^verbatim>\<open>completedBy: current.startedBy\<close> copies the property, absent or not.
\<close>

definition updateTask ::
  "string \<Rightarrow> TaskCompletionStatus \<Rightarrow> string option \<Rightarrow> rat option
     \<Rightarrow> SessionState \<times> world \<Rightarrow> SessionState \<times> world" where
  "updateTask taskId status note inputValue sw =
     (case currentChecklist (fst sw) of
        None \<Rightarrow> ((fst sw)\<lparr>error := Some (Message ''No active checklist'')\<rparr>, snd sw)
      | Some current \<Rightarrow>
          let now = clock (snd sw);
              updatedTask =
                \<lparr>tc_taskId = taskId, tc_status = status, tc_completedAt = Some now,
                 tc_note = note, tc_inputValue = inputValue,
                 tc_completedBy = ci_startedBy current\<rparr>;
              updatedTasks = AList.update taskId updatedTask (ci_tasks current);
              stats = calculateCompletionStats updatedTasks (ci_totalTasks current);
              updatedChecklist =
                current\<lparr>ci_tasks := updatedTasks,
                         ci_doneCount := stats_doneCount stats,
                         ci_notDoneCount := stats_notDoneCount stats,
                         ci_naCount := stats_naCount stats,
                         ci_completionPercentage := stats_completionPercentage stats,
                         ci_lastModifiedAt := now\<rparr>
          in ((fst sw)\<lparr>currentChecklist := Some updatedChecklist\<rparr>,
              (snd sw)\<lparr>db_checklists := checklists_put updatedChecklist (db_checklists (snd sw))\<rparr>))"

text \<open>
  \<^verbatim>\<open>checkForActiveSessions(templateId)\<close>. The query is
  \<^verbatim>\<open>where('templateId').equals(templateId).filter(c => c.status === 'in_progress' ||
  c.status === 'pending_review')\<close>. \<^verbatim>\<open>Array.prototype.sort\<close> is stable, so sorting
  with \<^verbatim>\<open>(a, b) => time(b) - time(a)\<close> is the stable sort on the negated time. Reading
  element 0 of an empty array gives \<^verbatim>\<open>undefined\<close>, whose property read throws into
  the \<^verbatim>\<open>catch\<close>; so does \<^verbatim>\<open>session.startedBy.name\<close> on a row that has no
  \<^verbatim>\<open>startedBy\<close> (a \<open>TypeError\<close>). Every exception makes the result \<^verbatim>\<open>null\<close>.
\<close>

definition is_active_for :: "TemplateId \<Rightarrow> ChecklistInstance \<Rightarrow> bool" where
  "is_active_for templateId c =
     (ci_templateId c = templateId \<and> (ci_status c = in_progress \<or> ci_status c = pending_review))"

definition most_recent_first :: "ChecklistInstance list \<Rightarrow> ChecklistInstance list" where
  "most_recent_first cs = sort_key (\<lambda>c. - ci_lastModifiedAt c) cs"

definition checkForActiveSessions :: "TemplateId \<Rightarrow> world \<Rightarrow> ActiveSession option \<times> world" where
  "checkForActiveSessions templateId w =
     (case getDeviceId w of
        (Inl e, w1) \<Rightarrow> (None, w1)
      | (Inr deviceId, w1) \<Rightarrow>
          let activeSessions = filter (is_active_for templateId) (db_checklists w1)
          in if length activeSessions = 0 then (None, w1)
             else (case most_recent_first activeSessions of
                     [] \<Rightarrow> (None, w1)
                   | session # rest \<Rightarrow>
                       (case ci_startedBy session of
                          None \<Rightarrow> (None, w1)
                        | Some startedBy \<Rightarrow>
                            (Some \<lparr>as_checklistId = ci_id session,
                                    as_templateId = ci_templateId session,
                                    as_templateName = ci_templateName session,
                                    as_staffName = ref_name startedBy,
                                    as_deviceId = ci_deviceId session,
                                    as_startedAt = ci_startedAt session,
                                    as_lastActivityAt = ci_lastModifiedAt session,
                                    as_completionPercentage = ci_completionPercentage session,
                                    as_isOwnDevice = (ci_deviceId session = deviceId)\<rparr>,
                             w1))))"

section \<open>PIN security (lib/utils/pinSecurity.ts, PIN_SECURITY of types/staff.ts)\<close>

definition PIN_LENGTH :: nat where
  "PIN_LENGTH = 4"

definition MAX_ATTEMPTS :: nat where
  "MAX_ATTEMPTS = 3"

definition LOCKOUT_DURATION_MS :: int where
  "LOCKOUT_DURATION_MS = 5 * 60 * 1000"

datatype PinError = invalid_pin | account_locked | not_found

record PinVerificationResult =
  pv_success :: bool
  pv_error :: "PinError option"
  pv_lockoutRemaining :: "int option"
  pv_attemptsRemaining :: "int option"

text \<open>
  \<^verbatim>\<open>hashPin(managerId, pin)\<close>. The digest (SHA-256 of the UTF-8 bytes, in hexadecimal) is
  the parameter \<open>H\<close>; the salted text is built as the code builds it.
\<close>

definition hashPin ::
  "(string \<Rightarrow> string) \<Rightarrow> string \<Rightarrow> string \<Rightarrow> world \<Rightarrow> (js_error + string) \<times> world" where
  "hashPin H managerId pin w =
     (case getPinSalt w of
        (Inl e, w1) \<Rightarrow> (Inl e, w1)
      | (Inr salt, w1) \<Rightarrow> (Inr (H (salt @ '':'' @ managerId @ '':'' @ pin)), w1))"

text \<open>
  \<^verbatim>\<open>verifyManagerPin(managerId, pin)\<close>. \<open>mgr\<close> is the row as read by the one
  \<^verbatim>\<open>db.staff.get\<close> at the top; the code reads \<^verbatim>\<open>manager.pinHash\<close> and
  \<^verbatim>\<open>manager.failedAttempts\<close> from that object after the lockout branch has written the
  table. \<^verbatim>\<open>manager.failedAttempts || 0\<close> is 0 for an absent count. An exception
  (only \<^verbatim>\<open>hashPin\<close> can throw) is caught and answered with \<^verbatim>\<open>invalid_pin\<close>.
\<close>

definition verifyManagerPin ::
  "(string \<Rightarrow> string) \<Rightarrow> string \<Rightarrow> string \<Rightarrow> world \<Rightarrow> PinVerificationResult \<times> world" where
  "verifyManagerPin H managerId pin w =
     (case staff_get managerId w of
        None \<Rightarrow>
          (\<lparr>pv_success = False, pv_error = Some not_found, pv_lockoutRemaining = None,
            pv_attemptsRemaining = None\<rparr>, w)
      | Some mgr \<Rightarrow>
          if st_role mgr \<noteq> manager
          then (\<lparr>pv_success = False, pv_error = Some not_found, pv_lockoutRemaining = None,
                 pv_attemptsRemaining = None\<rparr>, w)
          else
            (case (case st_lockedUntil mgr of
                     None \<Rightarrow> Inr w
                   | Some lockExpiry \<Rightarrow>
                       let now = clock w
                       in if now < lockExpiry
                          then Inl \<lparr>pv_success = False, pv_error = Some account_locked,
                                    pv_lockoutRemaining =
                                      Some (Math_ceil (of_int (lockExpiry - now) / 1000)),
                                    pv_attemptsRemaining = None\<rparr>
                          else Inr (staff_update managerId
                                 (\<lambda>r. r\<lparr>st_failedAttempts := Some 0, st_lockedUntil := None\<rparr>) w)) of
               Inl locked \<Rightarrow> (locked, w)
             | Inr w1 \<Rightarrow>
                 (case hashPin H managerId pin w1 of
                    (Inl e, w2) \<Rightarrow>
                      (\<lparr>pv_success = False, pv_error = Some invalid_pin,
                        pv_lockoutRemaining = None, pv_attemptsRemaining = None\<rparr>, w2)
                  | (Inr hashedPin, w2) \<Rightarrow>
                      if Some hashedPin = st_pinHash mgr
                      then (\<lparr>pv_success = True, pv_error = None, pv_lockoutRemaining = None,
                             pv_attemptsRemaining = None\<rparr>,
                            staff_update managerId
                              (\<lambda>r. r\<lparr>st_failedAttempts := Some 0, st_lockedUntil := None\<rparr>) w2)
                      else
                        let newFailedAttempts =
                              (case st_failedAttempts mgr of None \<Rightarrow> 0 | Some n \<Rightarrow> n) + 1;
                            attemptsRemaining = int MAX_ATTEMPTS - int newFailedAttempts
                        in if newFailedAttempts \<ge> MAX_ATTEMPTS
                           then
                             let lockedUntil = clock w2 + LOCKOUT_DURATION_MS
                             in (\<lparr>pv_success = False, pv_error = Some account_locked,
                                  pv_lockoutRemaining =
                                    Some (Math_ceil (of_int LOCKOUT_DURATION_MS / 1000)),
                                  pv_attemptsRemaining = None\<rparr>,
                                 staff_update managerId
                                   (\<lambda>r. r\<lparr>st_failedAttempts := Some newFailedAttempts,
                                           st_lockedUntil := Some lockedUntil\<rparr>) w2)
                           else
                             (\<lparr>pv_success = False, pv_error = Some invalid_pin,
                               pv_lockoutRemaining = None,
                               pv_attemptsRemaining = Some attemptsRemaining\<rparr>,
                              staff_update managerId
                                (\<lambda>r. r\<lparr>st_failedAttempts := Some newFailedAttempts\<rparr>) w2))))"

section \<open>The checklist page (app/checklist/[templateId]/page.tsx, ManagerAuthModal.tsx)\<close>

text \<open>
  The page's state that loading and approval touch: the loaded \<^verbatim>\<open>checklist\<close>, the
  \<^verbatim>\<open>error\<close> text, the \<^verbatim>\<open>showManagerAuth\<close> flag, and where \<^verbatim>\<open>router.push\<close> last
  sent the browser. \<^verbatim>\<open>template\<close> and \<^verbatim>\<open>isLoading\<close> are left out.
\<close>

record PageState =
  pg_checklist :: "ChecklistInstance option"
  pg_error :: "error_text option"
  pg_showManagerAuth :: bool
  pg_route :: "string option"

text \<open>
  The page's own \<^verbatim>\<open>generateUUID\<close>:
  \<^verbatim>\<open>
  function generateUUID(): string {
    if (typeof crypto !== 'undefined' && crypto.randomUUID) {
      return crypto.randomUUID();
    }
    return 'xxxxxxxx-xxxx-4xxx-yxxx-xxxxxxxxxxxx'.replace(/[xy]/g, ...Math.random()...);
  }
  \<close>
  Both branches return the next random identifier.
\<close>

definition page_generateUUID :: "world \<Rightarrow> string \<times> world" where
  "page_generateUUID w = (randomSource w (randomDrawn w), w\<lparr>randomDrawn := Suc (randomDrawn w)\<rparr>)"

text \<open>
  \<^verbatim>\<open>loadData()\<close> of the page's first effect, for the route's \<^verbatim>\<open>templateId\<close> and the
  \<^verbatim>\<open>resume\<close> query parameter (\<open>None\<close> when absent; the empty text is falsy).
  Without a checklist to resume, the most recently modified \<^verbatim>\<open>in_progress\<close> row of
  the template is loaded, and when there is none a new row is created and stored:
  \<^verbatim>\<open>
  const newChecklist: ChecklistInstance = {
    id: generateUUID(), templateId, templateName: tmpl.name, status: 'in_progress',
    staff: { id: 'anonymous', name: 'Staff', role: 'staff' },
    deviceId, tasks: Object.fromEntries(taskIds.map((id) => [id, { taskId: id, status: 'not_done' }])),
    completionPercentage: 0, doneCount: 0, notDoneCount: taskIds.length, naCount: 0,
    totalTasks: tmpl.totalTasks, startedAt: now, lastModifiedAt: now,
  };
  \<close>
  The object has a \<^verbatim>\<open>staff\<close> property and no \<^verbatim>\<open>startedBy\<close>. An exception (only
  \<^verbatim>\<open>getDeviceId\<close> can throw) is caught and its message becomes the page's error.
\<close>

definition loadData ::
  "TemplateId \<Rightarrow> string option \<Rightarrow> PageState \<times> world \<Rightarrow> PageState \<times> world" where
  "loadData templateId resumeId pw =
     (let tmpl = getTemplate templateId
      in case (if resumeId = Some [] then None else resumeId) of
           Some checklistId \<Rightarrow>
             (case checklists_get checklistId (snd pw) of
                Some existing \<Rightarrow> ((fst pw)\<lparr>pg_checklist := Some existing\<rparr>, snd pw)
              | None \<Rightarrow> ((fst pw)\<lparr>pg_error := Some (Message ''Checklist not found'')\<rparr>, snd pw))
         | None \<Rightarrow>
             let existingChecklists =
                   filter (\<lambda>c. ci_status c = in_progress)
                     (filter (\<lambda>c. ci_templateId c = templateId) (db_checklists (snd pw)))
             in if length existingChecklists > 0
                then ((fst pw)\<lparr>pg_checklist :=
                                  (case most_recent_first existingChecklists of
                                     [] \<Rightarrow> None
                                   | mostRecent # rest \<Rightarrow> Some mostRecent)\<rparr>,
                      snd pw)
                else
                  (case getDeviceId (snd pw) of
                     (Inl e, w1) \<Rightarrow> ((fst pw)\<lparr>pg_error := Some (Thrown e)\<rparr>, w1)
                   | (Inr deviceId, w1) \<Rightarrow>
                       let taskIds = getAllTaskIds tmpl;
                           now = clock w1
                       in (case page_generateUUID w1 of
                             (uuid, w2) \<Rightarrow>
                               let newChecklist =
                                     \<lparr>ci_id = uuid, ci_templateId = templateId,
                                      ci_templateName = tpl_name tmpl, ci_status = in_progress,
                                      ci_startedBy = None,
                                      ci_staff = Some \<lparr>ref_id = ''anonymous'', ref_name = ''Staff'',
                                                         ref_role = staff\<rparr>,
                                      ci_manager = None, ci_deviceId = deviceId,
                                      ci_tasks = fromEntries (blank_entries task_not_done taskIds),
                                      ci_completionPercentage = 0, ci_doneCount = 0,
                                      ci_notDoneCount = length taskIds, ci_naCount = 0,
                                      ci_totalTasks = tpl_totalTasks tmpl,
                                      ci_startedAt = now, ci_lastModifiedAt = now,
                                      ci_submittedAt = None, ci_approvedAt = None,
                                      ci_shiftNotes = None\<rparr>
                               in ((fst pw)\<lparr>pg_checklist := Some newChecklist\<rparr>,
                                   w2\<lparr>db_checklists :=
                                        checklists_put newChecklist (db_checklists w2)\<rparr>))))"

text \<open>\<^verbatim>\<open>handleManagerApprove(manager, shiftNotes)\<close>, with \<^verbatim>\<open>manager: {id, name}\<close>.\<close>

definition handleManagerApprove ::
  "string \<Rightarrow> string \<Rightarrow> string option \<Rightarrow> PageState \<times> world \<Rightarrow> PageState \<times> world" where
  "handleManagerApprove managerId managerName shiftNotes pw =
     (case pg_checklist (fst pw) of
        None \<Rightarrow> pw
      | Some checklist \<Rightarrow>
          let now = clock (snd pw);
              updatedChecklist =
                checklist\<lparr>ci_status := approved,
                           ci_manager := Some \<lparr>ref_id = managerId, ref_name = managerName,
                                                ref_role = manager\<rparr>,
                           ci_approvedAt := Some now,
                           ci_shiftNotes := shiftNotes,
                           ci_lastModifiedAt := now\<rparr>
          in ((fst pw)\<lparr>pg_checklist := Some updatedChecklist, pg_showManagerAuth := False,
                        pg_route := Some ''/''\<rparr>,
              (snd pw)\<lparr>db_checklists := checklists_put updatedChecklist (db_checklists (snd pw))\<rparr>))"

text \<open>
  \<^verbatim>\<open>handleVerifyPin(pinValue)\<close> of the modal, as the page mounts it:
  \<^verbatim>\<open>verifyPin = verifyManagerPin\<close>, \<^verbatim>\<open>onSuccess = handleManagerApprove\<close>.
  \<open>selectedManager\<close> and \<open>capturedNotes\<close> are the values of the modal's
  \<^verbatim>\<open>selectedManager\<close> and \<^verbatim>\<open>shiftNotes\<close> that the running callback closed over. The
  callback is created anew whenever one of them changes, but its one caller is
  \<^verbatim>\<open>handlePinChange\<close>, on the fourth digit, and \<^verbatim>\<open>handlePinChange\<close> is memoised on
  \<^verbatim>\<open>[pin]\<close> alone: it runs the \<^verbatim>\<open>handleVerifyPin\<close> of the render in which the PIN
  last changed. Selecting a manager resets the PIN, so the manager is the selected
  one; the notes are the text of the notes field as it stood when the PIN last changed
  before the final digit, and what is typed into the field after that is not seen.
  \<^verbatim>\<open>shiftNotes || undefined\<close> turns the empty text into \<^verbatim>\<open>undefined\<close>. What the modal
  displays after a refusal (step, message, countdown) is left out.
\<close>

definition handleVerifyPin ::
  "(string \<Rightarrow> string) \<Rightarrow> StaffRecord option \<Rightarrow> string \<Rightarrow> string
     \<Rightarrow> PageState \<times> world \<Rightarrow> PageState \<times> world" where
  "handleVerifyPin H selectedManager capturedNotes pinValue pw =
     (case selectedManager of
        None \<Rightarrow> pw
      | Some m \<Rightarrow>
          (case verifyManagerPin H (st_id m) pinValue (snd pw) of
             (result, w1) \<Rightarrow>
               if pv_success result
               then handleManagerApprove (st_id m) (st_name m)
                      (if capturedNotes = [] then None else Some capturedNotes) (fst pw, w1)
               else (fst pw, w1)))"

section \<open>Submission endpoint (app/api/submit/route.ts)\<close>

text \<open>
  A parsed JSON value. An object is its list of members, the keys distinct, as
  \<^verbatim>\<open>JSON.parse\<close> leaves it.
\<close>

datatype json =
    JNull | JBool bool | JNum rat | JStr string | JArr "json list"
  | JObj "(string \<times> json) list"

text \<open>
  Truthiness, \<^verbatim>\<open>typeof\<close>, reading a property and the \<^verbatim>\<open>in\<close> operator, on a value
  that may be \<^verbatim>\<open>undefined\<close> (\<open>None\<close>). A property read here never names a built-in
  property (\<^verbatim>\<open>length\<close>, \<^verbatim>\<open>constructor\<close>), so only an object's own members answer.
\<close>

fun truthy :: "json option \<Rightarrow> bool" where
  "truthy None = False"
| "truthy (Some JNull) = False"
| "truthy (Some (JBool b)) = b"
| "truthy (Some (JNum n)) = (n \<noteq> 0)"
| "truthy (Some (JStr s)) = (s \<noteq> [])"
| "truthy (Some (JArr xs)) = True"
| "truthy (Some (JObj kvs)) = True"

fun typeof :: "json option \<Rightarrow> string" where
  "typeof None = ''undefined''"
| "typeof (Some JNull) = ''object''"
| "typeof (Some (JBool b)) = ''boolean''"
| "typeof (Some (JNum n)) = ''number''"
| "typeof (Some (JStr s)) = ''string''"
| "typeof (Some (JArr xs)) = ''object''"
| "typeof (Some (JObj kvs)) = ''object''"

fun get_member :: "json option \<Rightarrow> string \<Rightarrow> json option" where
  "get_member (Some (JObj kvs)) k = map_of kvs k"
| "get_member v k = None"

fun has_property :: "string \<Rightarrow> json option \<Rightarrow> bool" where
  "has_property k (Some (JObj kvs)) = (k \<in> set (map fst kvs))"
| "has_property k v = False"

definition requiredFields :: "string list" where
  "requiredFields =
     [''date'', ''area'', ''templateName'', ''templateId'', ''staff'', ''manager'',
      ''completionPercentage'', ''doneCount'', ''notDoneCount'', ''naCount'', ''totalTasks'',
      ''startedAt'', ''submittedAt'', ''approvedAt'', ''tasks'', ''deviceId'']"

text \<open>\<^verbatim>\<open>validateSubmission(body)\<close>: the four early returns and the loop over the fields.\<close>

definition validateSubmission :: "json \<Rightarrow> bool" where
  "validateSubmission body =
     (if \<not> truthy (Some body) \<or> typeof (Some body) \<noteq> ''object'' then False
      else if typeof (get_member (Some body) ''submissionId'') \<noteq> ''string''
              \<or> \<not> truthy (get_member (Some body) ''submissionId'') then False
      else if \<not> truthy (get_member (Some body) ''snapshot'')
              \<or> typeof (get_member (Some body) ''snapshot'') \<noteq> ''object'' then False
      else list_all (\<lambda>field. has_property field (get_member (Some body) ''snapshot'')) requiredFields)"

text \<open>
  Converting a parsed JSON value to a primitive, which \<^verbatim>\<open>new Date(v)\<close> and
  \<^verbatim>\<open>String(v)\<close> both do, throws a \<open>TypeError\<close> in one case. For an object the
  conversion calls its \<^verbatim>\<open>toString\<close> and \<^verbatim>\<open>valueOf\<close> (in either order): the
  inherited \<^verbatim>\<open>valueOf\<close> returns the object itself, the inherited \<^verbatim>\<open>toString\<close>
  returns a string, and a member of a parsed object is never a function; so the
  conversion fails exactly when the object has a member named \<^verbatim>\<open>toString\<close>, which
  hides the inherited method. An array is converted by joining its elements, each
  converted in turn (\<^verbatim>\<open>null\<close> becomes the empty text). \<^verbatim>\<open>null\<close>, booleans, numbers and
  strings are primitives already, and \<^verbatim>\<open>undefined\<close> is one as well.
\<close>

fun ToPrimitive_throws :: "json \<Rightarrow> bool" where
  "ToPrimitive_throws (JObj kvs) = (''toString'' \<in> set (map fst kvs))"
| "ToPrimitive_throws (JArr xs) = list_ex ToPrimitive_throws xs"
| "ToPrimitive_throws v = False"

definition conversion_throws :: "json option \<Rightarrow> bool" where
  "conversion_throws v = (case v of None \<Rightarrow> False | Some x \<Rightarrow> ToPrimitive_throws x)"

text \<open>
  \<^verbatim>\<open>createSheetsRow(snapshot, pdfLink)\<close>. It throws a \<open>TypeError\<close> in
  \<^verbatim>\<open>new Date(snapshot.startedAt)\<close> and \<^verbatim>\<open>new Date(snapshot.submittedAt)\<close> when the
  conversion above does, and in reading \<^verbatim>\<open>.name\<close> of \<^verbatim>\<open>snapshot.staff\<close> or
  \<^verbatim>\<open>snapshot.manager\<close> when that value is \<^verbatim>\<open>null\<close> or \<^verbatim>\<open>undefined\<close>. A date that
  does not parse is an invalid date, whose day and time are read without an exception.
  The row keeps the columns copied from the snapshot; the three columns formatted from
  the dates (\<^verbatim>\<open>dayOfWeek\<close>, \<^verbatim>\<open>startTime\<close>, \<^verbatim>\<open>submitTime\<close>) are left out.
\<close>

record SheetsLogRow =
  row_date :: "json option"
  row_area :: "json option"
  row_dutyType :: string
  row_staffName :: "json option"
  row_managerName :: "json option"
  row_completionPercent :: "json option"
  row_doneCount :: "json option"
  row_notDoneCount :: "json option"
  row_naCount :: "json option"
  row_totalTasks :: "json option"
  row_pdfLink :: string

definition nullish :: "json option \<Rightarrow> bool" where
  "nullish v = (v = None \<or> v = Some JNull)"

definition createSheetsRow :: "json option \<Rightarrow> string \<Rightarrow> js_error + SheetsLogRow" where
  "createSheetsRow snapshot pdfLink =
     (if conversion_throws (get_member snapshot ''startedAt'') then Inl TypeError
      else if conversion_throws (get_member snapshot ''submittedAt'') then Inl TypeError
      else if nullish (get_member snapshot ''staff'') then Inl TypeError
      else if nullish (get_member snapshot ''manager'') then Inl TypeError
      else Inr
        \<lparr>row_date = get_member snapshot ''date'',
         row_area = get_member snapshot ''area'',
         row_dutyType =
           (if get_member snapshot ''templateId'' = Some (JStr ''closing'')
            then ''Closing'' else ''Opening''),
         row_staffName = get_member (get_member snapshot ''staff'') ''name'',
         row_managerName = get_member (get_member snapshot ''manager'') ''name'',
         row_completionPercent = get_member snapshot ''completionPercentage'',
         row_doneCount = get_member snapshot ''doneCount'',
         row_notDoneCount = get_member snapshot ''notDoneCount'',
         row_naCount = get_member snapshot ''naCount'',
         row_totalTasks = get_member snapshot ''totalTasks'',
         row_pdfLink = pdfLink\<rparr>)"

record SubmitResponse =
  resp_success :: bool
  resp_submissionId :: "json option"
  resp_status :: SubmissionStatus
  resp_sheetsRowId :: "string option"
  resp_driveFileId :: "string option"
  resp_driveFileUrl :: "string option"
  resp_error :: "error_text option"

text \<open>
  \<^verbatim>\<open>formatRowForSheets(row)\<close>. The handler never uses the array this returns (the
  append to the sheet is a TODO), so only whether the call returns is kept: the five
  \<^verbatim>\<open>String(..)\<close> conversions, of \<^verbatim>\<open>completionPercent\<close>, \<^verbatim>\<open>doneCount\<close>,
  \<^verbatim>\<open>notDoneCount\<close>, \<^verbatim>\<open>naCount\<close> and \<^verbatim>\<open>totalTasks\<close>, can throw; the other columns
  are copied.
\<close>

definition formatRowForSheets :: "SheetsLogRow \<Rightarrow> js_error + unit" where
  "formatRowForSheets row =
     (if list_ex conversion_throws
           [row_completionPercent row, row_doneCount row, row_notDoneCount row,
            row_naCount row, row_totalTasks row]
      then Inl TypeError else Inr ())"

text \<open>What the handler returns: the HTTP status and the JSON body.\<close>

record HttpResult =
  http_status :: nat
  http_body :: SubmitResponse

text \<open>\<^verbatim>\<open>v || 'unknown'\<close>\<close>

definition or_unknown :: "json option \<Rightarrow> json option" where
  "or_unknown v = (if truthy v then v else Some (JStr ''unknown''))"

definition failure_response :: "json option \<Rightarrow> error_text \<Rightarrow> SubmitResponse" where
  "failure_response sid msg =
     \<lparr>resp_success = False, resp_submissionId = sid, resp_status = failed,
      resp_sheetsRowId = None, resp_driveFileId = None, resp_driveFileUrl = None,
      resp_error = Some msg\<rparr>"

text \<open>
  \<^verbatim>\<open>POST(request)\<close>. The argument is what \<^verbatim>\<open>await request.json()\<close> gives: \<open>None\<close>
  when the body is not JSON (an empty body included), which throws into the
  \<^verbatim>\<open>catch\<close>. The PDF buffer, the Drive file and the row id are placeholders: the
  handler contacts no service and reads no stored submission.
\<close>

definition POST :: "json option \<Rightarrow> HttpResult" where
  "POST request_json =
     (case request_json of
        None \<Rightarrow>
          \<lparr>http_status = 500,
           http_body = failure_response (Some (JStr ''unknown'')) (Thrown SyntaxError)\<rparr>
      | Some body \<Rightarrow>
          if \<not> validateSubmission body
          then \<lparr>http_status = 400,
                http_body = failure_response
                  (or_unknown (get_member (Some body) ''submissionId''))
                  (Message ''Invalid request payload'')\<rparr>
          else
            let submissionId = get_member (Some body) ''submissionId'';
                snapshot = get_member (Some body) ''snapshot'';
                driveFileId = ''placeholder_drive_id'';
                driveFileUrl = ''https://drive.google.com/file/d/'' @ driveFileId @ ''/view''
            in (case createSheetsRow snapshot driveFileUrl of
                  Inl e \<Rightarrow>
                    \<lparr>http_status = 500,
                     http_body = failure_response (Some (JStr ''unknown'')) (Thrown e)\<rparr>
                | Inr sheetsRow \<Rightarrow>
                    (case formatRowForSheets sheetsRow of
                       Inl e \<Rightarrow>
                         \<lparr>http_status = 500,
                          http_body = failure_response (Some (JStr ''unknown'')) (Thrown e)\<rparr>
                     | Inr rowData \<Rightarrow>
                         \<lparr>http_status = 200,
                          http_body =
                            \<lparr>resp_success = True, resp_submissionId = submissionId,
                             resp_status = complete,
                             resp_sheetsRowId = Some ''placeholder_row_id'',
                             resp_driveFileId = Some driveFileId,
                             resp_driveFileUrl = Some driveFileUrl,
                             resp_error = None\<rparr>\<rparr>)))"

section \<open>The Sync Outbox\<close>

text \<open>
  Modelled from the spec: how the Sync Outbox classes the HTTP status of a failed
  call (spec section 7, sync errors: retryable are timeouts, 5xx and transient network
  failures; non-retryable are 4xx). The outbox that reads the endpoint's response
  (hooks/useOfflineSync.ts, lib/stores/useSyncStore.ts in \<^verbatim>\<open>PROJECT_STRUCTURE.md\<close>) is
  not among the source files. A status outside 400 to 599 is no error status.
\<close>

datatype RetryClass = Retryable | NonRetryable

definition retry_class :: "nat \<Rightarrow> RetryClass option" where
  "retry_class statusCode =
     (if 400 \<le> statusCode \<and> statusCode < 500 then Some NonRetryable
      else if 500 \<le> statusCode \<and> statusCode < 600 then Some Retryable
      else None)"

text \<open>
  Modelled from the spec: one attempt of the Sync Outbox on a submission (spec
  section 4.3: the pipeline, the resumability rule, retry/backoff). The outbox is not
  among the source files (see above); the record types it works on, of types/sync.ts,
  are. The external client is the parameter \<open>client\<close>: called for a step on the
  submission as it stands, it answers with a failure (message, status code if any,
  whether retryable) or with a receipt, of which \<open>sheets_write\<close> reads the row id
  and \<open>pdf_upload\<close> the file id and URL.

  \<^item> The pipeline is ordered: \<open>sheets_write\<close>, \<open>pdf_generate\<close>, \<open>pdf_upload\<close>,
    \<open>sheets_update\<close>.
  \<^item> \<open>record_success\<close>: \<open>sheets_write\<close> records \<open>sheetsRowId\<close> and sets the status
    to \<open>sheets_done\<close>; \<open>pdf_generate\<close> sets \<open>pdfStatus\<close> to \<open>generated\<close>;
    \<open>pdf_upload\<close> records \<open>driveFileId\<close> and \<open>driveFileUrl\<close> and sets
    \<open>pdfStatus\<close> to \<open>uploaded\<close>; \<open>sheets_update\<close> sets the status to \<open>complete\<close>
    and \<open>completedAt\<close>.
  \<^item> \<open>step_completed\<close>: what the persisted \<open>status\<close> and \<open>pdfStatus\<close> therefore
    say of a step.
  \<^item> \<open>record_failure\<close>: append a \<open>SyncError\<close> to \<open>errorLog\<close>, increment
    \<open>retryCount\<close>, set \<open>lastAttemptAt\<close>; if the failure is not retryable or
    \<open>retryCount\<close> has reached \<open>maxRetries\<close>, the submission becomes \<open>failed\<close>.
  \<^item> \<open>run_pipeline\<close>: go through the steps in order, skip a completed step, call the
    client for any other; a failure ends the attempt. The result is the submission as
    persisted and the list of the calls made, in order.
  \<^item> \<open>attempt\<close>: \<open>complete\<close> and \<open>failed\<close> are terminal, nothing is called for them.
\<close>

record StepReceipt =
  rc_sheetsRowId :: string
  rc_driveFileId :: string
  rc_driveFileUrl :: string

record StepFailure =
  sf_message :: string
  sf_statusCode :: "nat option"
  sf_retryable :: bool

definition pipeline :: "SyncStep list" where
  "pipeline = [sheets_write, pdf_generate, pdf_upload, sheets_update]"

definition step_completed :: "PendingSubmission \<Rightarrow> SyncStep \<Rightarrow> bool" where
  "step_completed p step =
     (case step of
        sheets_write \<Rightarrow> ps_status p = sheets_done \<or> ps_status p = complete
      | pdf_generate \<Rightarrow> ps_pdfStatus p = generated \<or> ps_pdfStatus p = uploaded
      | pdf_upload \<Rightarrow> ps_pdfStatus p = uploaded
      | sheets_update \<Rightarrow> ps_status p = complete)"

definition record_success ::
  "int \<Rightarrow> SyncStep \<Rightarrow> StepReceipt \<Rightarrow> PendingSubmission \<Rightarrow> PendingSubmission" where
  "record_success now step receipt p =
     (case step of
        sheets_write \<Rightarrow>
          p\<lparr>ps_sheetsRowId := Some (rc_sheetsRowId receipt), ps_status := sheets_done\<rparr>
      | pdf_generate \<Rightarrow> p\<lparr>ps_pdfStatus := generated\<rparr>
      | pdf_upload \<Rightarrow>
          p\<lparr>ps_driveFileId := Some (rc_driveFileId receipt),
            ps_driveFileUrl := Some (rc_driveFileUrl receipt), ps_pdfStatus := uploaded\<rparr>
      | sheets_update \<Rightarrow> p\<lparr>ps_status := complete, ps_completedAt := Some now\<rparr>)"

definition record_failure ::
  "int \<Rightarrow> SyncStep \<Rightarrow> StepFailure \<Rightarrow> PendingSubmission \<Rightarrow> PendingSubmission" where
  "record_failure now step failure p =
     (let retryCount = ps_retryCount p + 1
      in p\<lparr>ps_errorLog := ps_errorLog p @
              [\<lparr>se_timestamp = now, se_step = step, se_message = sf_message failure,
                se_statusCode = sf_statusCode failure, se_retryable = sf_retryable failure\<rparr>],
            ps_retryCount := retryCount,
            ps_lastAttemptAt := Some now,
            ps_status := (if \<not> sf_retryable failure \<or> retryCount \<ge> ps_maxRetries p
                          then failed else ps_status p)\<rparr>)"

fun run_pipeline ::
  "(SyncStep \<Rightarrow> PendingSubmission \<Rightarrow> StepFailure + StepReceipt) \<Rightarrow> int \<Rightarrow> SyncStep list
     \<Rightarrow> PendingSubmission \<Rightarrow> PendingSubmission \<times> SyncStep list" where
  "run_pipeline client now [] p = (p, [])"
| "run_pipeline client now (step # steps) p =
     (if step_completed p step then run_pipeline client now steps p
      else (case client step p of
              Inl failure \<Rightarrow> (record_failure now step failure p, [step])
            | Inr receipt \<Rightarrow>
                (case run_pipeline client now steps (record_success now step receipt p) of
                   (q, calls) \<Rightarrow> (q, step # calls))))"

definition attempt ::
  "(SyncStep \<Rightarrow> PendingSubmission \<Rightarrow> StepFailure + StepReceipt) \<Rightarrow> int
     \<Rightarrow> PendingSubmission \<Rightarrow> PendingSubmission \<times> SyncStep list" where
  "attempt client now p =
     (if ps_status p = complete \<or> ps_status p = failed then (p, [])
      else run_pipeline client now pipeline p)"

section \<open>Reading the state\<close>

text \<open>
  Two observations used to state results: the entry for a task in the store's current
  checklist, and in the row the \<^verbatim>\<open>checklists\<close> table holds under a given id.
\<close>

definition current_task :: "string \<Rightarrow> SessionState \<Rightarrow> TaskCompletion option" where
  "current_task taskId s =
     (case currentChecklist s of None \<Rightarrow> None | Some c \<Rightarrow> map_of (ci_tasks c) taskId)"

definition stored_task :: "string \<Rightarrow> string \<Rightarrow> world \<Rightarrow> TaskCompletion option" where
  "stored_task checklistId taskId w =
     (case checklists_get checklistId w of None \<Rightarrow> None
      | Some c \<Rightarrow> map_of (ci_tasks c) taskId)"

section \<open>Worked inputs\<close>

text \<open>
  Concrete inputs for the worked examples: a tablet whose browser provides
  \<^verbatim>\<open>crypto.randomUUID\<close> and whose device configuration is already stored, a staff
  member, a manager whose PIN is 4821, and an idle session store. \<open>stub_digest\<close>
  stands in for SHA-256 in the examples only; every general statement below holds for
  every digest function.
\<close>

definition stub_digest :: "string \<Rightarrow> string" where
  "stub_digest data = ''#'' @ data"

definition cfgA :: DeviceConfig where
  "cfgA = \<lparr>dc_deviceId = ''ipad-A'', dc_pinSalt = ''salt-A'', dc_installedAt = 1690000000000\<rparr>"

definition ann :: StaffReference where
  "ann = \<lparr>ref_id = ''s1'', ref_name = ''Ann'', ref_role = staff\<rparr>"

definition morgan :: StaffRecord where
  "morgan =
     \<lparr>st_id = ''m1'', st_name = ''Morgan'', st_role = manager, st_active = True,
      st_createdAt = 1690000000000, st_deactivatedAt = None,
      st_pinHash = Some (stub_digest ''salt-A:m1:4821''),
      st_failedAttempts = Some 0, st_lockedUntil = None\<rparr>"

definition idle :: SessionState where
  "idle = \<lparr>currentChecklist = None, isLoading = False, error = None\<rparr>"

definition tablet :: world where
  "tablet =
     \<lparr>hasRandomUUID = True, randomSource = (\<lambda>k. replicate (Suc k) CHR ''u''),
      randomDrawn = 0, clock = 1700000000000, db_deviceConfig = Some cfgA,
      db_staff = [morgan], db_checklists = [], db_submissions = [], db_auditLog = []\<rparr>"

text \<open>
  The manager's row as three wrong PINs leave it (count 3, locked for five minutes),
  on the tablet one second after that lockout has run out.
\<close>

definition morgan_locked_out :: StaffRecord where
  "morgan_locked_out =
     morgan\<lparr>st_failedAttempts := Some 3, st_lockedUntil := Some 1699999999000\<rparr>"

definition tablet_after_lockout :: world where
  "tablet_after_lockout = tablet\<lparr>db_staff := [morgan_locked_out]\<rparr>"

text \<open>
  The instance that \<^verbatim>\<open>startChecklist('pass_opening', ann)\<close> stores on the tablet, the
  tablet holding it, and the session store working on it.
\<close>

definition pass_shift :: ChecklistInstance where
  "pass_shift =
     \<lparr>ci_id = ''u'', ci_templateId = pass_opening,
      ci_templateName = ''Pass Opening Checklist'', ci_status = in_progress,
      ci_startedBy = Some ann, ci_staff = None, ci_manager = None, ci_deviceId = ''ipad-A'',
      ci_tasks = blank_entries task_not_done (getAllTaskIds PASS_OPENING_TEMPLATE),
      ci_completionPercentage = 0, ci_doneCount = 0, ci_notDoneCount = 34, ci_naCount = 0,
      ci_totalTasks = 32, ci_startedAt = 1700000000000, ci_lastModifiedAt = 1700000000000,
      ci_submittedAt = None, ci_approvedAt = None, ci_shiftNotes = None\<rparr>"

definition tablet_working :: world where
  "tablet_working = tablet\<lparr>randomDrawn := 1, clock := 1700000060000, db_checklists := [pass_shift]\<rparr>"

definition working :: SessionState where
  "working = idle\<lparr>currentChecklist := Some pass_shift\<rparr>"

text \<open>
  A tablet whose table holds four instances: a closing checklist in progress on this
  device, a closing checklist that a second device submitted for review later, an
  approved closing checklist modified last of all, and the pass-opening one.
\<close>

definition started_instance ::
  "string \<Rightarrow> TemplateId \<Rightarrow> StaffReference \<Rightarrow> string \<Rightarrow> int \<Rightarrow> ChecklistInstance" where
  "started_instance uuid t r deviceId now =
     \<lparr>ci_id = uuid, ci_templateId = t, ci_templateName = tpl_name (getTemplate t),
      ci_status = in_progress, ci_startedBy = Some r, ci_staff = None, ci_manager = None,
      ci_deviceId = deviceId,
      ci_tasks = blank_entries task_not_done (getAllTaskIds (getTemplate t)),
      ci_completionPercentage = 0, ci_doneCount = 0,
      ci_notDoneCount = length (getAllTaskIds (getTemplate t)), ci_naCount = 0,
      ci_totalTasks = tpl_totalTasks (getTemplate t),
      ci_startedAt = now, ci_lastModifiedAt = now,
      ci_submittedAt = None, ci_approvedAt = None, ci_shiftNotes = None\<rparr>"

definition ben :: StaffReference where
  "ben = \<lparr>ref_id = ''s2'', ref_name = ''Ben'', ref_role = staff\<rparr>"

definition closing_A :: ChecklistInstance where
  "closing_A = started_instance ''a'' closing ann ''ipad-A'' 1700000100000"

definition closing_B :: ChecklistInstance where
  "closing_B =
     (started_instance ''b'' closing ben ''ipad-B'' 1700000150000)
       \<lparr>ci_status := pending_review, ci_submittedAt := Some 1700000200000,
        ci_lastModifiedAt := 1700000200000\<rparr>"

definition closing_done :: ChecklistInstance where
  "closing_done =
     (started_instance ''c'' closing ann ''ipad-A'' 1700000050000)
       \<lparr>ci_status := approved, ci_lastModifiedAt := 1700000300000\<rparr>"

definition tablet_shared :: world where
  "tablet_shared = tablet\<lparr>db_checklists := [closing_A, closing_B, closing_done, pass_shift]\<rparr>"

text \<open>
  The page before anything is loaded, and the row that opening the closing checklist's
  page creates on the tablet (no row of that template being in progress there).
\<close>

definition page_blank :: PageState where
  "page_blank =
     \<lparr>pg_checklist = None, pg_error = None, pg_showManagerAuth = False, pg_route = None\<rparr>"

definition page_row :: ChecklistInstance where
  "page_row =
     \<lparr>ci_id = ''u'', ci_templateId = closing, ci_templateName = ''Closing Checklist'',
      ci_status = in_progress, ci_startedBy = None,
      ci_staff = Some \<lparr>ref_id = ''anonymous'', ref_name = ''Staff'', ref_role = staff\<rparr>,
      ci_manager = None, ci_deviceId = ''ipad-A'',
      ci_tasks = blank_entries task_not_done (getAllTaskIds CLOSING_TEMPLATE),
      ci_completionPercentage = 0, ci_doneCount = 0, ci_notDoneCount = 49, ci_naCount = 0,
      ci_totalTasks = 38, ci_startedAt = 1700000000000, ci_lastModifiedAt = 1700000000000,
      ci_submittedAt = None, ci_approvedAt = None, ci_shiftNotes = None\<rparr>"





text \<open>
  A request body as the outbox would send it for the approved pass-opening checklist
  (submission id and snapshot, the two members of \<^verbatim>\<open>SubmitRequestBody\<close>), and the
  same body with \<^verbatim>\<open>deviceId\<close> missing from the snapshot.
\<close>

definition snapshot_fields :: "(string \<times> json) list" where
  "snapshot_fields =
     [(''date'', JStr ''2023-11-14''), (''area'', JStr ''Pass''),
      (''templateName'', JStr ''Pass Opening Checklist''),
      (''templateId'', JStr ''pass_opening''),
      (''staff'', JObj [(''id'', JStr ''s1''), (''name'', JStr ''Ann''), (''role'', JStr ''staff'')]),
      (''manager'',
         JObj [(''id'', JStr ''m1''), (''name'', JStr ''Morgan''), (''role'', JStr ''manager'')]),
      (''completionPercentage'', JNum 100), (''doneCount'', JNum 32),
      (''notDoneCount'', JNum 2), (''naCount'', JNum 0), (''totalTasks'', JNum 32),
      (''startedAt'', JStr ''2023-11-14T22:13:20.000Z''),
      (''submittedAt'', JStr ''2023-11-14T22:15:20.000Z''),
      (''approvedAt'', JStr ''2023-11-14T22:15:20.000Z''),
      (''tasks'',
         JObj [(''pass_1'',
                JObj [(''taskId'', JStr ''pass_1''), (''status'', JStr ''done'')])]),
      (''deviceId'', JStr ''ipad-A'')]"

definition retry_body :: json where
  "retry_body = JObj [(''submissionId'', JStr ''sub-1''), (''snapshot'', JObj snapshot_fields)]"

definition body_without_deviceId :: json where
  "body_without_deviceId =
     JObj [(''submissionId'', JStr ''sub-1''),
           (''snapshot'', JObj (filter (\<lambda>kv. fst kv \<noteq> ''deviceId'') snapshot_fields))]"

text \<open>
  The pass-opening instance two minutes later, as 32 task updates leave it (32 tasks
  done, the last two untouched: the page shows 100 percent and enables submission),
  the tablet holding it, and the page with the approval modal open.
\<close>

definition done_entries :: "int \<Rightarrow> StaffReference \<Rightarrow> string list \<Rightarrow> (string \<times> TaskCompletion) list" where
  "done_entries now r taskIds =
     map (\<lambda>i. (i, \<lparr>tc_taskId = i, tc_status = task_done, tc_completedAt = Some now,
                     tc_note = None, tc_inputValue = None, tc_completedBy = Some r\<rparr>)) taskIds"

definition ready_shift :: ChecklistInstance where
  "ready_shift =
     pass_shift
       \<lparr>ci_tasks := done_entries 1700000060000 ann (take 32 (getAllTaskIds PASS_OPENING_TEMPLATE))
                     @ blank_entries task_not_done (drop 32 (getAllTaskIds PASS_OPENING_TEMPLATE)),
        ci_completionPercentage := 100, ci_doneCount := 32, ci_notDoneCount := 2,
        ci_lastModifiedAt := 1700000060000\<rparr>"

definition tablet_ready :: world where
  "tablet_ready = tablet\<lparr>randomDrawn := 1, clock := 1700000120000, db_checklists := [ready_shift]\<rparr>"

definition page_review :: PageState where
  "page_review =
     \<lparr>pg_checklist = Some ready_shift, pg_error = None, pg_showManagerAuth = True,
      pg_route = None\<rparr>"

text \<open>
  The request body above with an object for \<^verbatim>\<open>startedAt\<close> that has a member named
  \<^verbatim>\<open>toString\<close>: every required field is present, and the date cannot be built.
\<close>

definition body_with_object_date :: json where
  "body_with_object_date =
     JObj [(''submissionId'', JStr ''sub-1''),
           (''snapshot'',
              JObj (AList.update ''startedAt'' (JObj [(''toString'', JStr ''now'')])
                      snapshot_fields))]"

text \<open>
  Outbox records for the approved pass-opening checklist: the submission as enqueued,
  and the same submission after the row was written and the PDF uploaded, two failed
  attempts at the last step behind it. \<open>reachable\<close> is an external client that
  succeeds at every step, \<open>unreachable\<close> one that times out at every step.
\<close>

definition shift_snapshot :: SubmissionSnapshot where
  "shift_snapshot =
     \<lparr>ss_date = ''2023-11-14'', ss_area = ''Pass'', ss_templateName = ''Pass Opening Checklist'',
      ss_templateId = pass_opening, ss_staff = ann,
      ss_manager = \<lparr>ref_id = ''m1'', ref_name = ''Morgan'', ref_role = manager\<rparr>,
      ss_completionPercentage = 100, ss_doneCount = 32, ss_notDoneCount = 2, ss_naCount = 0,
      ss_totalTasks = 32, ss_startedAt = 1700000000000, ss_submittedAt = 1700000120000,
      ss_approvedAt = 1700000120000, ss_shiftNotes = None, ss_tasks = ci_tasks ready_shift,
      ss_deviceId = ''ipad-A''\<rparr>"

definition enqueued :: PendingSubmission where
  "enqueued =
     \<lparr>ps_id = ''sub-1'', ps_checklistId = ''u'', ps_status = sub_pending,
      ps_pdfStatus = pdf_pending, ps_sheetsRowId = None, ps_driveFileId = None,
      ps_driveFileUrl = None, ps_retryCount = 0, ps_maxRetries = 5,
      ps_createdAt = 1700000120000, ps_lastAttemptAt = None, ps_completedAt = None,
      ps_errorLog = [], ps_snapshot = shift_snapshot\<rparr>"

definition timed_out :: StepFailure where
  "timed_out = \<lparr>sf_message = ''timeout'', sf_statusCode = None, sf_retryable = True\<rparr>"

definition uploaded_submission :: PendingSubmission where
  "uploaded_submission =
     enqueued
       \<lparr>ps_status := sheets_done, ps_pdfStatus := uploaded, ps_sheetsRowId := Some ''row-7'',
        ps_driveFileId := Some ''file-9'',
        ps_driveFileUrl := Some ''https://drive.google.com/file/d/file-9/view'',
        ps_retryCount := 2, ps_lastAttemptAt := Some 1700000125000,
        ps_errorLog :=
          [\<lparr>se_timestamp = 1700000122000, se_step = sheets_update, se_message = ''timeout'',
            se_statusCode = None, se_retryable = True\<rparr>,
           \<lparr>se_timestamp = 1700000125000, se_step = sheets_update, se_message = ''timeout'',
            se_statusCode = None, se_retryable = True\<rparr>]\<rparr>"

definition reachable :: "SyncStep \<Rightarrow> PendingSubmission \<Rightarrow> StepFailure + StepReceipt" where
  "reachable step p =
     Inr \<lparr>rc_sheetsRowId = ''row-7'', rc_driveFileId = ''file-9'',
          rc_driveFileUrl = ''https://drive.google.com/file/d/file-9/view''\<rparr>"

definition unreachable :: "SyncStep \<Rightarrow> PendingSubmission \<Rightarrow> StepFailure + StepReceipt" where
  "unreachable step p = Inl timed_out"

section \<open>Auxiliary facts\<close>

subsection \<open>Identifiers and the device configuration\<close>

text \<open>
  \<^verbatim>\<open>generateUUID\<close> returns only where \<^verbatim>\<open>crypto.randomUUID\<close> is missing; where the
  browser provides it, the call never returns.
\<close>

lemma generateUUID_returns: "generateUUID w = Some r \<Longrightarrow> \<not> hasRandomUUID w"
  by (rule generateUUID.raw_induct [where P = "\<lambda>w r. \<not> hasRandomUUID w"])
     (auto split: if_splits)

lemma generateUUID_native: "hasRandomUUID w \<Longrightarrow> generateUUID w = None"
  using generateUUID_returns [of w] by (cases "generateUUID w") auto

lemma generateUUID_fallback:
  "\<not> hasRandomUUID w \<Longrightarrow>
   generateUUID w = Some (randomSource w (randomDrawn w), w\<lparr>randomDrawn := Suc (randomDrawn w)\<rparr>)"
  by (subst generateUUID.simps) simp

lemma initializeDeviceConfig_existing:
  "db_deviceConfig w = Some c \<Longrightarrow> initializeDeviceConfig w = (Inr c, w)"
  by (simp add: initializeDeviceConfig_def)

lemma initializeDeviceConfig_native_fresh:
  "db_deviceConfig w = None \<Longrightarrow> hasRandomUUID w \<Longrightarrow> initializeDeviceConfig w = (Inl RangeError, w)"
  by (simp add: initializeDeviceConfig_def generateUUID_native)

lemma getDeviceId_existing:
  "db_deviceConfig w = Some c \<Longrightarrow> getDeviceId w = (Inr (dc_deviceId c), w)"
  by (simp add: getDeviceId_def initializeDeviceConfig_existing)

lemma getPinSalt_existing:
  "db_deviceConfig w = Some c \<Longrightarrow> getPinSalt w = (Inr (dc_pinSalt c), w)"
  by (simp add: getPinSalt_def initializeDeviceConfig_existing)

lemma getDeviceId_native:
  "hasRandomUUID w \<Longrightarrow> snd (getDeviceId w) = w"
  by (cases "db_deviceConfig w")
     (simp_all add: getDeviceId_def initializeDeviceConfig_existing initializeDeviceConfig_native_fresh)

lemma getDeviceId_auditLog: "db_auditLog (snd (getDeviceId w)) = db_auditLog w"
  by (cases "hasRandomUUID w"; cases "db_deviceConfig w")
     (simp_all add: getDeviceId_def initializeDeviceConfig_def generateUUID_native
        generateUUID_fallback Let_def)

lemma getDeviceId_hasRandomUUID: "hasRandomUUID (snd (getDeviceId w)) = hasRandomUUID w"
  by (cases "hasRandomUUID w"; cases "db_deviceConfig w")
     (simp_all add: getDeviceId_def initializeDeviceConfig_def generateUUID_native
        generateUUID_fallback Let_def)

lemma logAuditEntry_native:
  "hasRandomUUID w \<Longrightarrow> logAuditEntry a e t p d w = (Inl RangeError, w)"
  by (cases "db_deviceConfig w")
     (simp_all add: logAuditEntry_def getDeviceId_def initializeDeviceConfig_existing
        initializeDeviceConfig_native_fresh generateUUID_native)

lemma crypto_randomUUID_missing:
  "\<not> hasRandomUUID w \<Longrightarrow> crypto_randomUUID w = (Inl TypeError, w)"
  by (simp add: crypto_randomUUID_def)

lemma startChecklist_native:
  assumes "hasRandomUUID w"
  shows "db_auditLog (snd (startChecklist t r (s, w))) = db_auditLog w
       \<and> currentChecklist (fst (startChecklist t r (s, w))) = currentChecklist s
       \<and> error (fst (startChecklist t r (s, w))) = Some (Thrown RangeError)"
proof (cases "db_deviceConfig w")
  case None
  with assms show ?thesis
    by (simp add: startChecklist_def getDeviceId_def initializeDeviceConfig_native_fresh Let_def)
next
  case (Some c)
  with assms show ?thesis
    by (simp add: startChecklist_def getDeviceId_existing crypto_randomUUID_def
        logAuditEntry_native Let_def)
qed

lemma startChecklist_fallback:
  assumes "\<not> hasRandomUUID w"
  shows "db_auditLog (snd (startChecklist t r (s, w))) = db_auditLog w
       \<and> currentChecklist (fst (startChecklist t r (s, w))) = currentChecklist s
       \<and> error (fst (startChecklist t r (s, w))) = Some (Thrown TypeError)"
proof -
  obtain d w1 where g: "getDeviceId w = (Inr d, w1)" and h: "\<not> hasRandomUUID w1"
    and a: "db_auditLog w1 = db_auditLog w"
    using assms
    by (cases "db_deviceConfig w")
       (auto simp: getDeviceId_def initializeDeviceConfig_def generateUUID_fallback Let_def)
  show ?thesis
    using g h a by (simp add: startChecklist_def crypto_randomUUID_missing Let_def)
qed

subsection \<open>Templates, task maps and counters\<close>

lemma getAllTaskIds_distinct: "distinct (getAllTaskIds (getTemplate t))"
  by (cases t)
     (simp_all add: getTemplate_def getAllTaskIds_def PASS_OPENING_TEMPLATE_def
        FLOOR_OPENING_TEMPLATE_def CLOSING_TEMPLATE_def task_def)

lemma getAllTaskIds_length:
  "length (getAllTaskIds (getTemplate t)) =
     (case t of pass_opening \<Rightarrow> 34 | floor_opening \<Rightarrow> 35 | closing \<Rightarrow> 49)"
  by (cases t)
     (simp_all add: getTemplate_def getAllTaskIds_def PASS_OPENING_TEMPLATE_def
        FLOOR_OPENING_TEMPLATE_def CLOSING_TEMPLATE_def)

lemma getTemplate_totalTasks:
  "tpl_totalTasks (getTemplate t) =
     (case t of pass_opening \<Rightarrow> 32 | floor_opening \<Rightarrow> 30 | closing \<Rightarrow> 38)"
  by (cases t)
     (simp_all add: getTemplate_def PASS_OPENING_TEMPLATE_def
        FLOOR_OPENING_TEMPLATE_def CLOSING_TEMPLATE_def)

lemma update_fresh: "k \<notin> fst ` set al \<Longrightarrow> AList.update k v al = al @ [(k, v)]"
  by (induction al) auto

lemma foldl_update_distinct:
  "distinct (map fst (acc @ kvs)) \<Longrightarrow>
   foldl (\<lambda>obj (k, v). AList.update k v obj) acc kvs = acc @ kvs"
proof (induction kvs arbitrary: acc)
  case Nil
  then show ?case by simp
next
  case (Cons kv kvs)
  obtain k v where kv: "kv = (k, v)" by (cases kv)
  from Cons.prems kv have fresh: "k \<notin> fst ` set acc" by auto
  from Cons.prems kv have "distinct (map fst ((acc @ [(k, v)]) @ kvs))" by auto
  from Cons.IH [OF this] show ?case
    by (simp add: kv update_fresh [OF fresh])
qed

lemma fromEntries_distinct: "distinct (map fst kvs) \<Longrightarrow> fromEntries kvs = kvs"
  using foldl_update_distinct [of "[]" kvs] by (simp add: fromEntries_def)

lemma blank_entries_keys: "map fst (blank_entries st ids) = ids"
  by (simp add: blank_entries_def comp_def)

lemma count_task_total:
  "foldl count_task acc ts = (d', n', a') \<Longrightarrow>
   d' + n' + a' = fst acc + fst (snd acc) + snd (snd acc) + length ts"
proof (induction ts arbitrary: acc)
  case Nil
  then show ?case by auto
next
  case (Cons t ts)
  obtain d n a where acc: "acc = (d, n, a)" by (cases acc) auto
  show ?case
    using Cons.IH [of "count_task acc t"] Cons.prems
    by (cases "tc_status t") (auto simp: acc)
qed

lemma calculateCompletionStats_total:
  "stats_doneCount (calculateCompletionStats tasks totalTasks)
   + stats_notDoneCount (calculateCompletionStats tasks totalTasks)
   + stats_naCount (calculateCompletionStats tasks totalTasks) = length tasks"
proof -
  obtain d n a where f: "foldl count_task (0, 0, 0) (Object_values tasks) = (d, n, a)"
    by (cases "foldl count_task (0, 0, 0) (Object_values tasks)") auto
  have len: "length (Object_values tasks) = length tasks"
    by (simp add: Object_values_def)
  from count_task_total [OF f] show ?thesis
    by (simp add: calculateCompletionStats_def f len)
qed

lemma nat_of_difference: "nat (int x - int y) = x - y"
  by arith

lemma calculateCompletionStats_percentage:
  "stats_completionPercentage (calculateCompletionStats tasks totalTasks) =
     (if stats_naCount (calculateCompletionStats tasks totalTasks) < totalTasks
      then Math_round
             (double_value
                (double_times
                   (double_nearest (stats_doneCount (calculateCompletionStats tasks totalTasks))
                      (totalTasks - stats_naCount (calculateCompletionStats tasks totalTasks)))
                   100))
      else 100)"
proof -
  obtain d n a where f: "foldl count_task (0, 0, 0) (Object_values tasks) = (d, n, a)"
    by (cases "foldl count_task (0, 0, 0) (Object_values tasks)") auto
  show ?thesis
    by (auto simp: calculateCompletionStats_def f Let_def nat_of_difference)
qed

lemma checklists_get_put:
  "ci_id x = k \<Longrightarrow> find (\<lambda>c. ci_id c = k) (checklists_put x xs) = Some x"
  by (induction xs) auto

lemma count_task_not_done:
  "foldl count_task (d, n, a) (map snd (blank_entries task_not_done ids)) = (d, n + length ids, a)"
  by (induction ids arbitrary: n) (simp_all add: blank_entries_def)

lemma percentage_zero:
  "Math_round (double_value (double_times (double_nearest 0 q) 100)) = 0"
  by (simp add: double_nearest_def double_times_def double_value_def Math_round_def
      floor_eq_iff)

lemma calculateCompletionStats_blank:
  "calculateCompletionStats (blank_entries task_not_done ids) totalTasks =
     \<lparr>stats_doneCount = 0, stats_notDoneCount = length ids, stats_naCount = 0,
      stats_completionPercentage = (if 0 < totalTasks then 0 else 100)\<rparr>"
  by (simp add: calculateCompletionStats_def Object_values_def count_task_not_done
      percentage_zero)

lemma startChecklist_persisted:
  assumes "hasRandomUUID w" and "db_deviceConfig w = Some cfg"
  shows "checklists_get (randomSource w (randomDrawn w)) (snd (startChecklist t r (s, w))) =
     Some \<lparr>ci_id = randomSource w (randomDrawn w), ci_templateId = t,
            ci_templateName = tpl_name (getTemplate t), ci_status = in_progress,
            ci_startedBy = Some r, ci_staff = None, ci_manager = None,
            ci_deviceId = dc_deviceId cfg,
            ci_tasks = blank_entries task_not_done (getAllTaskIds (getTemplate t)),
            ci_completionPercentage = 0, ci_doneCount = 0,
            ci_notDoneCount = length (getAllTaskIds (getTemplate t)), ci_naCount = 0,
            ci_totalTasks = tpl_totalTasks (getTemplate t),
            ci_startedAt = clock w, ci_lastModifiedAt = clock w,
            ci_submittedAt = None, ci_approvedAt = None, ci_shiftNotes = None\<rparr>"
proof -
  have d: "distinct (map fst (blank_entries st (getAllTaskIds (getTemplate t))))" for st
    by (simp add: blank_entries_keys getAllTaskIds_distinct)
  have pos: "0 < tpl_totalTasks (getTemplate t)"
    by (cases t) (simp_all add: getTemplate_totalTasks)
  show ?thesis
    using assms pos
    by (simp add: startChecklist_def getDeviceId_existing crypto_randomUUID_def
        logAuditEntry_native Let_def fromEntries_distinct [OF d]
        calculateCompletionStats_blank checklists_get_def checklists_get_put)
qed

subsection \<open>PIN verification\<close>

lemma lockout_seconds: "Math_ceil (of_int LOCKOUT_DURATION_MS / 1000) = 300"
  by (simp add: Math_ceil_def LOCKOUT_DURATION_MS_def)

lemma find_map_update:
  "find (\<lambda>r. st_id r = k) rs = Some r \<Longrightarrow> st_id (f r) = k \<Longrightarrow>
   find (\<lambda>r. st_id r = k) (map (\<lambda>r. if st_id r = k then f r else r) rs) = Some (f r)"
  by (induction rs) (auto split: if_splits)

lemma staff_get_update:
  "staff_get k w = Some r \<Longrightarrow> st_id (f r) = k \<Longrightarrow>
   staff_get k (staff_update k f w) = Some (f r)"
  by (simp add: staff_get_def staff_update_def find_map_update)

lemma staff_get_id: "staff_get k w = Some r \<Longrightarrow> st_id r = k"
  by (auto simp: staff_get_def find_Some_iff)

lemma staff_update_deviceConfig [simp]:
  "db_deviceConfig (staff_update k f w) = db_deviceConfig w"
  by (simp add: staff_update_def)

lemma staff_update_clock [simp]: "clock (staff_update k f w) = clock w"
  by (simp add: staff_update_def)

lemma hashPin_existing:
  "db_deviceConfig w = Some cfg \<Longrightarrow>
   hashPin H managerId pin w = (Inr (H (dc_pinSalt cfg @ '':'' @ managerId @ '':'' @ pin)), w)"
  by (simp add: hashPin_def getPinSalt_existing)

lemma verifyManagerPin_while_locked:
  assumes "staff_get managerId w = Some mgr" and "st_role mgr = manager"
    and "st_lockedUntil mgr = Some lockExpiry" and "clock w < lockExpiry"
  shows "verifyManagerPin H managerId pin w =
           (\<lparr>pv_success = False, pv_error = Some account_locked,
             pv_lockoutRemaining = Some (Math_ceil (of_int (lockExpiry - clock w) / 1000)),
             pv_attemptsRemaining = None\<rparr>, w)"
  using assms by (simp add: verifyManagerPin_def Let_def)

lemma verifyManagerPin_mismatch_unlocked:
  assumes row: "staff_get managerId w = Some mgr" and role: "st_role mgr = manager"
    and unlocked: "st_lockedUntil mgr = None"
    and count: "st_failedAttempts mgr = Some n"
    and cfg: "db_deviceConfig w = Some cfg"
    and wrong: "Some (H (dc_pinSalt cfg @ '':'' @ managerId @ '':'' @ pin)) \<noteq> st_pinHash mgr"
  shows "verifyManagerPin H managerId pin w =
           (if n + 1 \<ge> 3
            then (\<lparr>pv_success = False, pv_error = Some account_locked,
                   pv_lockoutRemaining = Some 300, pv_attemptsRemaining = None\<rparr>,
                  staff_update managerId
                    (\<lambda>r. r\<lparr>st_failedAttempts := Some (n + 1),
                            st_lockedUntil := Some (clock w + 300000)\<rparr>) w)
            else (\<lparr>pv_success = False, pv_error = Some invalid_pin,
                   pv_lockoutRemaining = None,
                   pv_attemptsRemaining = Some (3 - int (n + 1))\<rparr>,
                  staff_update managerId (\<lambda>r. r\<lparr>st_failedAttempts := Some (n + 1)\<rparr>) w))"
  using role unlocked count wrong
  by (simp add: verifyManagerPin_def row hashPin_existing [OF cfg] Math_ceil_def
      MAX_ATTEMPTS_def LOCKOUT_DURATION_MS_def Let_def)

lemma verifyManagerPin_match_after_expiry:
  assumes row: "staff_get managerId w = Some mgr" and role: "st_role mgr = manager"
    and locked: "st_lockedUntil mgr = Some lockExpiry" and expired: "lockExpiry \<le> clock w"
    and cfg: "db_deviceConfig w = Some cfg"
    and right: "Some (H (dc_pinSalt cfg @ '':'' @ managerId @ '':'' @ pin)) = st_pinHash mgr"
  shows "fst (verifyManagerPin H managerId pin w) =
           \<lparr>pv_success = True, pv_error = None, pv_lockoutRemaining = None,
            pv_attemptsRemaining = None\<rparr>
       \<and> staff_get managerId (snd (verifyManagerPin H managerId pin w)) =
           Some (mgr\<lparr>st_failedAttempts := Some 0, st_lockedUntil := None\<rparr>)"
proof -
  let ?reset = "\<lambda>r. r\<lparr>st_failedAttempts := Some 0, st_lockedUntil := None\<rparr>"
  let ?w1 = "staff_update managerId ?reset w"
  have id: "st_id mgr = managerId" by (rule staff_get_id [OF row])
  have r1: "staff_get managerId ?w1 = Some (?reset mgr)"
    by (rule staff_get_update [OF row]) (simp add: id)
  have r2: "staff_get managerId (staff_update managerId ?reset ?w1) = Some (?reset (?reset mgr))"
    by (rule staff_get_update [OF r1]) (simp add: id)
  have h: "hashPin H managerId pin ?w1 =
             (Inr (H (dc_pinSalt cfg @ '':'' @ managerId @ '':'' @ pin)), ?w1)"
    by (rule hashPin_existing) (simp add: cfg)
  have v: "verifyManagerPin H managerId pin w =
             (\<lparr>pv_success = True, pv_error = None, pv_lockoutRemaining = None,
               pv_attemptsRemaining = None\<rparr>, staff_update managerId ?reset ?w1)"
    using role locked expired right
    by (simp add: verifyManagerPin_def row h Let_def)
  show ?thesis
    using r2 by (simp add: v)
qed

subsection \<open>Task updates\<close>

lemma pass_shift_is_started:
  "checklists_get ''u'' (snd (startChecklist pass_opening ann (idle, tablet))) = Some pass_shift"
proof -
  have a: "hasRandomUUID tablet" by (simp add: tablet_def)
  have b: "db_deviceConfig tablet = Some cfgA" by (simp add: tablet_def)
  have t: "getTemplate pass_opening = PASS_OPENING_TEMPLATE" by (simp add: getTemplate_def)
  have len: "length (getAllTaskIds PASS_OPENING_TEMPLATE) = 34"
    using getAllTaskIds_length [of pass_opening] by (simp add: t)
  have tot: "tpl_totalTasks PASS_OPENING_TEMPLATE = 32"
    by (simp add: PASS_OPENING_TEMPLATE_def)
  have name: "tpl_name PASS_OPENING_TEMPLATE = ''Pass Opening Checklist''"
    by (simp add: PASS_OPENING_TEMPLATE_def)
  have u: "randomSource tablet (randomDrawn tablet) = ''u''" by (simp add: tablet_def)
  have c: "clock tablet = 1700000000000" by (simp add: tablet_def)
  from startChecklist_persisted [OF a b, of pass_opening ann idle]
  show ?thesis by (simp add: t len tot name u c pass_shift_def cfgA_def)
qed

lemma updateTask_result:
  assumes "currentChecklist s = Some c"
  shows "updateTask taskId status note inputValue (s, w) =
     (let entry = \<lparr>tc_taskId = taskId, tc_status = status, tc_completedAt = Some (clock w),
                    tc_note = note, tc_inputValue = inputValue,
                    tc_completedBy = ci_startedBy c\<rparr>;
          tasks' = AList.update taskId entry (ci_tasks c);
          stats = calculateCompletionStats tasks' (ci_totalTasks c);
          c' = c\<lparr>ci_tasks := tasks', ci_doneCount := stats_doneCount stats,
                  ci_notDoneCount := stats_notDoneCount stats,
                  ci_naCount := stats_naCount stats,
                  ci_completionPercentage := stats_completionPercentage stats,
                  ci_lastModifiedAt := clock w\<rparr>
      in (s\<lparr>currentChecklist := Some c'\<rparr>,
          w\<lparr>db_checklists := checklists_put c' (db_checklists w)\<rparr>))"
  using assms by (simp add: updateTask_def Let_def)

lemma updateTask_entry:
  assumes "currentChecklist s = Some c"
  shows "current_task taskId (fst (updateTask taskId status note inputValue (s, w))) =
           Some \<lparr>tc_taskId = taskId, tc_status = status, tc_completedAt = Some (clock w),
                  tc_note = note, tc_inputValue = inputValue,
                  tc_completedBy = ci_startedBy c\<rparr>
       \<and> stored_task (ci_id c) taskId (snd (updateTask taskId status note inputValue (s, w))) =
           Some \<lparr>tc_taskId = taskId, tc_status = status, tc_completedAt = Some (clock w),
                  tc_note = note, tc_inputValue = inputValue,
                  tc_completedBy = ci_startedBy c\<rparr>
       \<and> error (fst (updateTask taskId status note inputValue (s, w))) = error s"
  by (simp add: updateTask_result [OF assms] Let_def current_task_def stored_task_def
      checklists_get_def checklists_get_put update_conv')

subsection \<open>Active sessions\<close>

lemma getDeviceId_checklists: "db_checklists (snd (getDeviceId w)) = db_checklists w"
  by (cases "hasRandomUUID w"; cases "db_deviceConfig w")
     (simp_all add: getDeviceId_def initializeDeviceConfig_def generateUUID_native
        generateUUID_fallback Let_def)

lemma most_recent_first_head:
  assumes "most_recent_first cs = session # rest"
  shows "session \<in> set cs
       \<and> (\<forall>c\<in>set cs. ci_lastModifiedAt c \<le> ci_lastModifiedAt session)
       \<and> session = hd (filter (\<lambda>c. ci_lastModifiedAt c = ci_lastModifiedAt session) cs)"
proof -
  let ?f = "\<lambda>c. - ci_lastModifiedAt c"
  have s: "sort_key ?f cs = session # rest"
    using assms by (simp add: most_recent_first_def)
  have mem: "set cs = set (session # rest)"
    using set_sort [of ?f cs] s by simp
  have "sorted (map ?f (session # rest))"
    using sorted_sort_key [of ?f cs] s by simp
  then have le: "\<forall>c\<in>set rest. ci_lastModifiedAt c \<le> ci_lastModifiedAt session"
    by auto
  have "filter (\<lambda>c. ?f c = ?f session) (sort_key ?f cs) = filter (\<lambda>c. ?f c = ?f session) cs"
    by (rule sort_key_stable)
  then have "filter (\<lambda>c. ci_lastModifiedAt c = ci_lastModifiedAt session) cs
             = session # filter (\<lambda>c. ci_lastModifiedAt c = ci_lastModifiedAt session) rest"
    by (simp add: s)
  then have first: "session = hd (filter (\<lambda>c. ci_lastModifiedAt c = ci_lastModifiedAt session) cs)"
    by simp
  from mem le first show ?thesis by auto
qed

lemma most_recent_first_empty: "most_recent_first cs = [] \<longleftrightarrow> cs = []"
  using length_sort [of "\<lambda>c. - ci_lastModifiedAt c" cs]
  by (auto simp: most_recent_first_def simp del: length_sort)

lemma checkForActiveSessions_none:
  assumes "filter (is_active_for t) (db_checklists w) = []"
  shows "fst (checkForActiveSessions t w) = None"
proof (cases "getDeviceId w")
  case (Pair res w1)
  have c: "db_checklists w1 = db_checklists w"
    using getDeviceId_checklists [of w] Pair by simp
  show ?thesis
    using assms by (cases res) (simp_all add: checkForActiveSessions_def Pair c)
qed

lemma checkForActiveSessions_some:
  assumes dev: "getDeviceId w = (Inr deviceId, w1)"
    and ne: "filter (is_active_for t) (db_checklists w) \<noteq> []"
  shows "\<exists>session rest. most_recent_first (filter (is_active_for t) (db_checklists w)) = session # rest
           \<and> fst (checkForActiveSessions t w) =
               map_option
                 (\<lambda>startedBy.
                    \<lparr>as_checklistId = ci_id session, as_templateId = ci_templateId session,
                     as_templateName = ci_templateName session,
                     as_staffName = ref_name startedBy,
                     as_deviceId = ci_deviceId session, as_startedAt = ci_startedAt session,
                     as_lastActivityAt = ci_lastModifiedAt session,
                     as_completionPercentage = ci_completionPercentage session,
                     as_isOwnDevice = (ci_deviceId session = deviceId)\<rparr>)
                 (ci_startedBy session)"
proof -
  have c: "db_checklists w1 = db_checklists w"
    using getDeviceId_checklists [of w] dev by simp
  obtain session rest
    where m: "most_recent_first (filter (is_active_for t) (db_checklists w)) = session # rest"
    using ne most_recent_first_empty [of "filter (is_active_for t) (db_checklists w)"]
    by (cases "most_recent_first (filter (is_active_for t) (db_checklists w))") auto
  have "fst (checkForActiveSessions t w) =
               map_option
                 (\<lambda>startedBy.
                    \<lparr>as_checklistId = ci_id session, as_templateId = ci_templateId session,
                     as_templateName = ci_templateName session,
                     as_staffName = ref_name startedBy,
                     as_deviceId = ci_deviceId session, as_startedAt = ci_startedAt session,
                     as_lastActivityAt = ci_lastModifiedAt session,
                     as_completionPercentage = ci_completionPercentage session,
                     as_isOwnDevice = (ci_deviceId session = deviceId)\<rparr>)
                 (ci_startedBy session)"
    using ne by (cases "ci_startedBy session") (simp_all add: checkForActiveSessions_def dev c m)
  with m show ?thesis by blast
qed

text \<open>
  On a device whose id can be read, when every matching row has its \<^verbatim>\<open>startedBy\<close>:
  the result is nothing exactly when no stored row has the template id with status
  \<^verbatim>\<open>in_progress\<close> or \<^verbatim>\<open>pending_review\<close>; otherwise it is built, field by field, from
  a matching row whose \<^verbatim>\<open>lastModifiedAt\<close> is greatest among the matching ones, among
  equally recent ones the first that the table enumerates (the one with the least id),
  and \<^verbatim>\<open>isOwnDevice\<close> tells whether that row's device id is the local one.
\<close>

lemma checkForActiveSessions_started_rows:
  assumes dev: "getDeviceId w = (Inr deviceId, w1)"
    and started: "\<forall>c\<in>set (db_checklists w). is_active_for t c \<longrightarrow> ci_startedBy c \<noteq> None"
  shows "(fst (checkForActiveSessions t w) = None
            \<longleftrightarrow> (\<forall>c\<in>set (db_checklists w). \<not> is_active_for t c))
       \<and> (\<forall>a. fst (checkForActiveSessions t w) = Some a \<longrightarrow>
            (\<exists>session\<in>set (db_checklists w). \<exists>startedBy.
               is_active_for t session
               \<and> (\<forall>c\<in>set (db_checklists w).
                     is_active_for t c \<longrightarrow> ci_lastModifiedAt c \<le> ci_lastModifiedAt session)
               \<and> session = hd (filter (\<lambda>c. ci_lastModifiedAt c = ci_lastModifiedAt session)
                                  (filter (is_active_for t) (db_checklists w)))
               \<and> ci_startedBy session = Some startedBy
               \<and> a = \<lparr>as_checklistId = ci_id session, as_templateId = ci_templateId session,
                       as_templateName = ci_templateName session,
                       as_staffName = ref_name startedBy,
                       as_deviceId = ci_deviceId session, as_startedAt = ci_startedAt session,
                       as_lastActivityAt = ci_lastModifiedAt session,
                       as_completionPercentage = ci_completionPercentage session,
                       as_isOwnDevice = (ci_deviceId session = deviceId)\<rparr>))"
proof (cases "filter (is_active_for t) (db_checklists w) = []")
  case True
  then have "\<forall>c\<in>set (db_checklists w). \<not> is_active_for t c"
    by (simp add: filter_empty_conv)
  with checkForActiveSessions_none [OF True] show ?thesis by simp
next
  case False
  then have ex: "\<not> (\<forall>c\<in>set (db_checklists w). \<not> is_active_for t c)"
    by (simp add: filter_empty_conv)
  from checkForActiveSessions_some [OF dev False] obtain session rest
    where m: "most_recent_first (filter (is_active_for t) (db_checklists w)) = session # rest"
      and r: "fst (checkForActiveSessions t w) =
               map_option
                 (\<lambda>startedBy.
                    \<lparr>as_checklistId = ci_id session, as_templateId = ci_templateId session,
                     as_templateName = ci_templateName session,
                     as_staffName = ref_name startedBy,
                     as_deviceId = ci_deviceId session, as_startedAt = ci_startedAt session,
                     as_lastActivityAt = ci_lastModifiedAt session,
                     as_completionPercentage = ci_completionPercentage session,
                     as_isOwnDevice = (ci_deviceId session = deviceId)\<rparr>)
                 (ci_startedBy session)"
    by blast
  from most_recent_first_head [OF m]
  have h: "session \<in> set (db_checklists w)" "is_active_for t session"
    "\<forall>c\<in>set (db_checklists w). is_active_for t c \<longrightarrow> ci_lastModifiedAt c \<le> ci_lastModifiedAt session"
    "session = hd (filter (\<lambda>c. ci_lastModifiedAt c = ci_lastModifiedAt session)
                     (filter (is_active_for t) (db_checklists w)))"
    by auto
  from started h(1,2) obtain startedBy where sb: "ci_startedBy session = Some startedBy"
    by auto
  have some: "fst (checkForActiveSessions t w) \<noteq> None"
    using r sb by simp
  have "\<exists>session\<in>set (db_checklists w). \<exists>startedBy.
               is_active_for t session
               \<and> (\<forall>c\<in>set (db_checklists w).
                     is_active_for t c \<longrightarrow> ci_lastModifiedAt c \<le> ci_lastModifiedAt session)
               \<and> session = hd (filter (\<lambda>c. ci_lastModifiedAt c = ci_lastModifiedAt session)
                                  (filter (is_active_for t) (db_checklists w)))
               \<and> ci_startedBy session = Some startedBy
               \<and> a = \<lparr>as_checklistId = ci_id session, as_templateId = ci_templateId session,
                       as_templateName = ci_templateName session,
                       as_staffName = ref_name startedBy,
                       as_deviceId = ci_deviceId session, as_startedAt = ci_startedAt session,
                       as_lastActivityAt = ci_lastModifiedAt session,
                       as_completionPercentage = ci_completionPercentage session,
                       as_isOwnDevice = (ci_deviceId session = deviceId)\<rparr>"
    if a: "fst (checkForActiveSessions t w) = Some a" for a
  proof -
    from a r sb have "a = \<lparr>as_checklistId = ci_id session, as_templateId = ci_templateId session,
                       as_templateName = ci_templateName session,
                       as_staffName = ref_name startedBy,
                       as_deviceId = ci_deviceId session, as_startedAt = ci_startedAt session,
                       as_lastActivityAt = ci_lastModifiedAt session,
                       as_completionPercentage = ci_completionPercentage session,
                       as_isOwnDevice = (ci_deviceId session = deviceId)\<rparr>"
      by simp
    with h sb show ?thesis by blast
  qed
  with ex some show ?thesis by blast
qed

text \<open>
  The example: of the two matching rows on the shared tablet the one submitted for
  review on the second device is the more recent, and it is not this device's.
\<close>

lemma checkForActiveSessions_shared:
  "fst (checkForActiveSessions closing tablet_shared) =
     Some \<lparr>as_checklistId = ''b'', as_templateId = closing,
            as_templateName = ''Closing Checklist'', as_staffName = ''Ben'',
            as_deviceId = ''ipad-B'', as_startedAt = 1700000150000,
            as_lastActivityAt = 1700000200000, as_completionPercentage = 0,
            as_isOwnDevice = False\<rparr>"
proof -
  have cfg: "db_deviceConfig tablet_shared = Some cfgA"
    by (simp add: tablet_shared_def tablet_def)
  have dev: "getDeviceId tablet_shared = (Inr ''ipad-A'', tablet_shared)"
    using getDeviceId_existing [OF cfg] by (simp add: cfgA_def)
  have act: "filter (is_active_for closing) (db_checklists tablet_shared) = [closing_A, closing_B]"
    by (simp add: tablet_shared_def tablet_def is_active_for_def closing_A_def closing_B_def
        closing_done_def pass_shift_def started_instance_def)
  have srt: "most_recent_first [closing_A, closing_B] = [closing_B, closing_A]"
    by (simp add: most_recent_first_def closing_A_def closing_B_def started_instance_def)
  show ?thesis
    by (simp add: checkForActiveSessions_def dev act srt)
       (simp add: closing_B_def started_instance_def ben_def getTemplate_def
          CLOSING_TEMPLATE_def)
qed

subsection \<open>Loading the checklist page\<close>

text \<open>
  On a device whose configuration is stored and that holds no row of the template in
  progress, opening the page without a checklist to resume stores and loads a new row,
  which has no \<^verbatim>\<open>startedBy\<close>.
\<close>

lemma loadData_creates:
  assumes cfg: "db_deviceConfig w = Some cfg"
    and none: "\<forall>c\<in>set (db_checklists w). \<not> (ci_templateId c = t \<and> ci_status c = in_progress)"
  shows "loadData t None (p, w) =
     (let row = \<lparr>ci_id = randomSource w (randomDrawn w), ci_templateId = t,
                  ci_templateName = tpl_name (getTemplate t), ci_status = in_progress,
                  ci_startedBy = None,
                  ci_staff = Some \<lparr>ref_id = ''anonymous'', ref_name = ''Staff'', ref_role = staff\<rparr>,
                  ci_manager = None, ci_deviceId = dc_deviceId cfg,
                  ci_tasks = blank_entries task_not_done (getAllTaskIds (getTemplate t)),
                  ci_completionPercentage = 0, ci_doneCount = 0,
                  ci_notDoneCount = length (getAllTaskIds (getTemplate t)), ci_naCount = 0,
                  ci_totalTasks = tpl_totalTasks (getTemplate t),
                  ci_startedAt = clock w, ci_lastModifiedAt = clock w,
                  ci_submittedAt = None, ci_approvedAt = None, ci_shiftNotes = None\<rparr>
      in (p\<lparr>pg_checklist := Some row\<rparr>,
          w\<lparr>randomDrawn := Suc (randomDrawn w),
            db_checklists := checklists_put row (db_checklists w)\<rparr>))"
proof -
  have d: "distinct (map fst (blank_entries task_not_done (getAllTaskIds (getTemplate t))))"
    by (simp add: blank_entries_keys getAllTaskIds_distinct)
  have e: "filter (\<lambda>c. ci_templateId c = t \<and> ci_status c = in_progress) (db_checklists w) = []"
    using none by (auto simp: filter_empty_conv)
  show ?thesis
    by (simp add: loadData_def e getDeviceId_existing [OF cfg] page_generateUUID_def Let_def
        fromEntries_distinct [OF d])
qed

lemma loadData_on_tablet:
  "loadData closing None (page_blank, tablet) =
     (page_blank\<lparr>pg_checklist := Some page_row\<rparr>,
      tablet\<lparr>randomDrawn := 1, db_checklists := [page_row]\<rparr>)"
proof -
  have cfg: "db_deviceConfig tablet = Some cfgA" by (simp add: tablet_def)
  have none: "\<forall>c\<in>set (db_checklists tablet).
                \<not> (ci_templateId c = closing \<and> ci_status c = in_progress)"
    by (simp add: tablet_def)
  have t: "getTemplate closing = CLOSING_TEMPLATE" by (simp add: getTemplate_def)
  have len: "length (getAllTaskIds CLOSING_TEMPLATE) = 49"
    using getAllTaskIds_length [of closing] by (simp add: t)
  have tpl: "tpl_totalTasks CLOSING_TEMPLATE = 38" "tpl_name CLOSING_TEMPLATE = ''Closing Checklist''"
    by (simp_all add: CLOSING_TEMPLATE_def)
  have w: "randomSource tablet 0 = ''u''" "clock tablet = 1700000000000"
    "randomDrawn tablet = 0" "db_checklists tablet = []"
    by (simp_all add: tablet_def)
  show ?thesis
    by (simp add: loadData_creates [OF cfg none] t len tpl w page_row_def cfgA_def Let_def)
qed

subsection \<open>The submission endpoint\<close>

lemma validateSubmission_needs_fields:
  "validateSubmission body \<Longrightarrow>
     (\<exists>s. get_member (Some body) ''submissionId'' = Some (JStr s) \<and> s \<noteq> [])
     \<and> list_all (\<lambda>field. has_property field (get_member (Some body) ''snapshot'')) requiredFields"
proof -
  assume v: "validateSubmission body"
  have str: "typeof x = ''string'' \<Longrightarrow> \<exists>s. x = Some (JStr s)" for x
    by (cases x rule: typeof.cases) simp_all
  from v have t: "typeof (get_member (Some body) ''submissionId'') = ''string''"
    and tr: "truthy (get_member (Some body) ''submissionId'')"
    and fields: "list_all (\<lambda>field. has_property field (get_member (Some body) ''snapshot'')) requiredFields"
    by (auto simp: validateSubmission_def split: if_splits)
  from str [OF t] obtain s where s: "get_member (Some body) ''submissionId'' = Some (JStr s)"
    by blast
  with tr have "s \<noteq> []" by simp
  with s fields show ?thesis by simp
qed

lemma POST_invalid:
  "\<not> validateSubmission body \<Longrightarrow>
   POST (Some body) =
     \<lparr>http_status = 400,
      http_body = failure_response (or_unknown (get_member (Some body) ''submissionId''))
                    (Message ''Invalid request payload'')\<rparr>"
  by (simp add: POST_def)

lemma retry_body_valid: "validateSubmission retry_body"
  by (simp add: validateSubmission_def retry_body_def snapshot_fields_def requiredFields_def)

text \<open>
  A valid request is answered 200 with the placeholder ids, whatever was sent before,
  unless building the row throws: then the answer is 500.
\<close>

lemma POST_valid:
  assumes "validateSubmission body"
  shows "POST (Some body) =
     (if nullish (get_member (get_member (Some body) ''snapshot'') ''staff'')
         \<or> nullish (get_member (get_member (Some body) ''snapshot'') ''manager'')
         \<or> list_ex (\<lambda>field. conversion_throws
                                (get_member (get_member (Some body) ''snapshot'') field))
              [''startedAt'', ''submittedAt'', ''completionPercentage'', ''doneCount'',
               ''notDoneCount'', ''naCount'', ''totalTasks'']
      then \<lparr>http_status = 500,
            http_body = failure_response (Some (JStr ''unknown'')) (Thrown TypeError)\<rparr>
      else \<lparr>http_status = 200,
            http_body =
              \<lparr>resp_success = True, resp_submissionId = get_member (Some body) ''submissionId'',
               resp_status = complete, resp_sheetsRowId = Some ''placeholder_row_id'',
               resp_driveFileId = Some ''placeholder_drive_id'',
               resp_driveFileUrl =
                 Some ''https://drive.google.com/file/d/placeholder_drive_id/view'',
               resp_error = None\<rparr>\<rparr>)"
  using assms by (simp add: POST_def createSheetsRow_def formatRowForSheets_def Let_def)

lemma POST_retry_body:
  "POST (Some retry_body) =
     \<lparr>http_status = 200,
      http_body =
        \<lparr>resp_success = True, resp_submissionId = Some (JStr ''sub-1''),
         resp_status = complete, resp_sheetsRowId = Some ''placeholder_row_id'',
         resp_driveFileId = Some ''placeholder_drive_id'',
         resp_driveFileUrl = Some ''https://drive.google.com/file/d/placeholder_drive_id/view'',
         resp_error = None\<rparr>\<rparr>"
  by (simp add: POST_valid [OF retry_body_valid])
     (simp add: retry_body_def snapshot_fields_def nullish_def conversion_throws_def)

lemma POST_object_date:
  "validateSubmission body_with_object_date
   \<and> POST (Some body_with_object_date) =
       \<lparr>http_status = 500,
        http_body = failure_response (Some (JStr ''unknown'')) (Thrown TypeError)\<rparr>"
proof -
  have v: "validateSubmission body_with_object_date"
    by (simp add: validateSubmission_def body_with_object_date_def snapshot_fields_def
        requiredFields_def)
  show ?thesis
    by (simp add: v POST_valid [OF v])
       (simp add: body_with_object_date_def snapshot_fields_def conversion_throws_def)
qed

subsection \<open>Manager approval\<close>

lemma initializeDeviceConfig_frame:
  "initializeDeviceConfig w = (r, w') \<Longrightarrow>
     db_submissions w' = db_submissions w \<and> db_checklists w' = db_checklists w
     \<and> db_auditLog w' = db_auditLog w \<and> db_staff w' = db_staff w \<and> clock w' = clock w"
  by (cases "hasRandomUUID w"; cases "db_deviceConfig w")
     (auto simp: initializeDeviceConfig_def generateUUID_native generateUUID_fallback Let_def)

lemma hashPin_frame:
  "hashPin H m p w = (r, w') \<Longrightarrow>
     db_submissions w' = db_submissions w \<and> db_checklists w' = db_checklists w
     \<and> db_auditLog w' = db_auditLog w \<and> clock w' = clock w"
proof -
  assume h: "hashPin H m p w = (r, w')"
  obtain r0 w0 where i: "initializeDeviceConfig w = (r0, w0)"
    by (cases "initializeDeviceConfig w")
  from h i have "w' = w0"
    by (cases r0) (auto simp: hashPin_def getPinSalt_def)
  with initializeDeviceConfig_frame [OF i] show ?thesis by simp
qed

lemma staff_update_frame [simp]:
  "db_submissions (staff_update k f w) = db_submissions w"
  "db_checklists (staff_update k f w) = db_checklists w"
  "db_auditLog (staff_update k f w) = db_auditLog w"
  by (simp_all add: staff_update_def)

lemma verifyManagerPin_frame:
  assumes "verifyManagerPin H m p w = (r, w')"
  shows "db_submissions w' = db_submissions w \<and> db_checklists w' = db_checklists w
       \<and> db_auditLog w' = db_auditLog w \<and> clock w' = clock w"
proof -
  have hp: "\<And>w0 r0 w1. hashPin H m p w0 = (r0, w1) \<Longrightarrow>
     db_submissions w1 = db_submissions w0 \<and> db_checklists w1 = db_checklists w0
     \<and> db_auditLog w1 = db_auditLog w0 \<and> clock w1 = clock w0"
    by (rule hashPin_frame)
  show ?thesis
    using assms
    by (auto simp: verifyManagerPin_def Let_def
        split: option.splits if_splits sum.splits prod.splits dest!: hp)
qed

lemma verifyManagerPin_match_unlocked:
  assumes row: "staff_get managerId w = Some mgr" and role: "st_role mgr = manager"
    and unlocked: "st_lockedUntil mgr = None"
    and cfg: "db_deviceConfig w = Some cfg"
    and right: "Some (H (dc_pinSalt cfg @ '':'' @ managerId @ '':'' @ pin)) = st_pinHash mgr"
  shows "verifyManagerPin H managerId pin w =
           (\<lparr>pv_success = True, pv_error = None, pv_lockoutRemaining = None,
             pv_attemptsRemaining = None\<rparr>,
            staff_update managerId
              (\<lambda>r. r\<lparr>st_failedAttempts := Some 0, st_lockedUntil := None\<rparr>) w)"
  using role unlocked right
  by (simp add: verifyManagerPin_def row hashPin_existing [OF cfg] Let_def)

lemma handleManagerApprove_result:
  assumes "pg_checklist p = Some c"
  shows "handleManagerApprove managerId managerName shiftNotes (p, w) =
     (let c' = c\<lparr>ci_status := approved,
                  ci_manager := Some \<lparr>ref_id = managerId, ref_name = managerName,
                                       ref_role = manager\<rparr>,
                  ci_approvedAt := Some (clock w), ci_shiftNotes := shiftNotes,
                  ci_lastModifiedAt := clock w\<rparr>
      in (p\<lparr>pg_checklist := Some c', pg_showManagerAuth := False, pg_route := Some ''/''\<rparr>,
          w\<lparr>db_checklists := checklists_put c' (db_checklists w)\<rparr>))"
  using assms by (simp add: handleManagerApprove_def Let_def)

lemma handleVerifyPin_result:
  assumes chk: "pg_checklist p = Some c"
    and ver: "verifyManagerPin H (st_id m) pinValue w = (result, w1)"
  shows "handleVerifyPin H (Some m) capturedNotes pinValue (p, w) =
     (if pv_success result
      then (let c' = c\<lparr>ci_status := approved,
                        ci_manager := Some \<lparr>ref_id = st_id m, ref_name = st_name m,
                                             ref_role = manager\<rparr>,
                        ci_approvedAt := Some (clock w),
                        ci_shiftNotes := (if capturedNotes = [] then None else Some capturedNotes),
                        ci_lastModifiedAt := clock w\<rparr>
            in (p\<lparr>pg_checklist := Some c', pg_showManagerAuth := False, pg_route := Some ''/''\<rparr>,
                w1\<lparr>db_checklists := checklists_put c' (db_checklists w1)\<rparr>))
      else (p, w1))"
  using verifyManagerPin_frame [OF ver]
  by (simp add: handleVerifyPin_def ver handleManagerApprove_result [OF chk] Let_def)

lemma handleVerifyPin_effect:
  assumes chk: "pg_checklist p = Some c"
    and ver: "verifyManagerPin H (st_id m) pinValue w = (result, w1)"
  shows "if pv_success result
         then fst (handleVerifyPin H (Some m) capturedNotes pinValue (p, w)) =
                p\<lparr>pg_checklist :=
                     Some (c\<lparr>ci_status := approved,
                             ci_manager := Some \<lparr>ref_id = st_id m, ref_name = st_name m,
                                                  ref_role = manager\<rparr>,
                             ci_approvedAt := Some (clock w),
                             ci_shiftNotes :=
                               (if capturedNotes = [] then None else Some capturedNotes),
                             ci_lastModifiedAt := clock w\<rparr>),
                   pg_showManagerAuth := False, pg_route := Some ''/''\<rparr>
            \<and> checklists_get (ci_id c)
                (snd (handleVerifyPin H (Some m) capturedNotes pinValue (p, w))) =
                Some (c\<lparr>ci_status := approved,
                        ci_manager := Some \<lparr>ref_id = st_id m, ref_name = st_name m,
                                             ref_role = manager\<rparr>,
                        ci_approvedAt := Some (clock w),
                        ci_shiftNotes :=
                          (if capturedNotes = [] then None else Some capturedNotes),
                        ci_lastModifiedAt := clock w\<rparr>)
            \<and> db_submissions (snd (handleVerifyPin H (Some m) capturedNotes pinValue (p, w)))
              = db_submissions w
            \<and> db_auditLog (snd (handleVerifyPin H (Some m) capturedNotes pinValue (p, w)))
              = db_auditLog w
         else fst (handleVerifyPin H (Some m) capturedNotes pinValue (p, w)) = p
            \<and> db_checklists (snd (handleVerifyPin H (Some m) capturedNotes pinValue (p, w)))
              = db_checklists w
            \<and> db_submissions (snd (handleVerifyPin H (Some m) capturedNotes pinValue (p, w)))
              = db_submissions w
            \<and> db_auditLog (snd (handleVerifyPin H (Some m) capturedNotes pinValue (p, w)))
              = db_auditLog w"
  using verifyManagerPin_frame [OF ver]
  by (simp add: handleVerifyPin_result [OF chk ver] Let_def checklists_get_def
      checklists_get_put)

lemma morgan_verifies:
  "verifyManagerPin stub_digest (st_id morgan) ''4821'' tablet_ready =
     (\<lparr>pv_success = True, pv_error = None, pv_lockoutRemaining = None,
       pv_attemptsRemaining = None\<rparr>,
      staff_update ''m1''
        (\<lambda>r. r\<lparr>st_failedAttempts := Some 0, st_lockedUntil := None\<rparr>) tablet_ready)"
proof -
  have row: "staff_get ''m1'' tablet_ready = Some morgan"
    by (simp add: staff_get_def tablet_ready_def tablet_def morgan_def)
  have cfg: "db_deviceConfig tablet_ready = Some cfgA"
    by (simp add: tablet_ready_def tablet_def)
  have right: "Some (stub_digest (dc_pinSalt cfgA @ '':'' @ ''m1'' @ '':'' @ ''4821''))
                 = st_pinHash morgan"
    by (simp add: morgan_def cfgA_def)
  have id: "st_id morgan = ''m1''" by (simp add: morgan_def)
  from verifyManagerPin_match_unlocked
         [where H = stub_digest and pin = "''4821''", OF row _ _ cfg right]
  show ?thesis by (simp add: id morgan_def)
qed

subsection \<open>The counters of a task map\<close>

lemma calculateCompletionStats_invariant:
  assumes "length tasks = totalTasks"
  shows "stats_doneCount (calculateCompletionStats tasks totalTasks)
         + stats_notDoneCount (calculateCompletionStats tasks totalTasks)
         + stats_naCount (calculateCompletionStats tasks totalTasks) = totalTasks
       \<and> stats_completionPercentage (calculateCompletionStats tasks totalTasks) =
           (if stats_naCount (calculateCompletionStats tasks totalTasks) < totalTasks
            then Math_round
                   (double_value
                      (double_times
                         (double_nearest
                            (stats_doneCount (calculateCompletionStats tasks totalTasks))
                            (totalTasks
                             - stats_naCount (calculateCompletionStats tasks totalTasks)))
                         100))
            else 100)"
  using calculateCompletionStats_total [of tasks totalTasks]
    calculateCompletionStats_percentage [of tasks totalTasks] assms
  by simp

lemma update_length:
  "length (AList.update k v al) =
     (if k \<in> fst ` set al then length al else Suc (length al))"
  by (induction al) auto

lemma updateTask_counters:
  assumes "currentChecklist s = Some c"
  shows "\<exists>c'. currentChecklist (fst (updateTask taskId status noteText inputValue (s, w))) = Some c'
           \<and> ci_doneCount c' + ci_notDoneCount c' + ci_naCount c' = length (ci_tasks c')
           \<and> ci_totalTasks c' = ci_totalTasks c
           \<and> length (ci_tasks c') =
               (if taskId \<in> fst ` set (ci_tasks c) then length (ci_tasks c)
                else Suc (length (ci_tasks c)))"
  by (simp add: updateTask_result [OF assms] Let_def calculateCompletionStats_total
      update_length)

lemma count_task_done:
  "foldl count_task (d, n, a) (map snd (done_entries now r ids)) = (d + length ids, n, a)"
  by (induction ids arbitrary: d) (simp_all add: done_entries_def)

text \<open>
  The percentage in examples: 34 of 32 is 106, 8 of 8 is 100, and 23 of 40 is 57,
  where the exact value 57.5 would round to 58 (the quotient 0.575 is not a double, and
  the hundredfold of the double nearest to it lies below 57.5).
\<close>

lemma percentage_examples:
  "Math_round (double_value (double_times (double_nearest 34 32) 100)) = 106"
  "Math_round (double_value (double_times (double_nearest 8 8) 100)) = 100"
  "Math_round (double_value (double_times (double_nearest 23 40) 100)) = 57"
  "Math_round (23 / 40 * 100) = 58"
  by (simp_all add: double_times_def double_nearest_def floor_log2.simps scaled_def
      round_half_even_def Let_def double_value_def Math_round_def floor_eq_iff)

lemma all_done_exceeds_100:
  "calculateCompletionStats (done_entries now r (getAllTaskIds PASS_OPENING_TEMPLATE)) 32 =
     \<lparr>stats_doneCount = 34, stats_notDoneCount = 0, stats_naCount = 0,
      stats_completionPercentage = 106\<rparr>"
proof -
  have len: "length (getAllTaskIds PASS_OPENING_TEMPLATE) = 34"
    using getAllTaskIds_length [of pass_opening] by (simp add: getTemplate_def)
  show ?thesis
    by (simp add: calculateCompletionStats_def Object_values_def count_task_done len
        percentage_examples)
qed

lemma spec_example_ten_tasks:
  "calculateCompletionStats
     (done_entries now r [''t1'', ''t2'', ''t3'', ''t4'', ''t5'', ''t6'', ''t7'', ''t8'']
      @ blank_entries task_na [''t9'', ''t10'']) 10 =
     \<lparr>stats_doneCount = 8, stats_notDoneCount = 0, stats_naCount = 2,
      stats_completionPercentage = 100\<rparr>"
proof -
  have c: "foldl count_task (0, 0, 0)
             (map snd (done_entries now r [''t1'', ''t2'', ''t3'', ''t4'', ''t5'', ''t6'', ''t7'', ''t8'']
                       @ blank_entries task_na [''t9'', ''t10''])) = (8, 0, 2)"
    by (simp add: done_entries_def blank_entries_def)
  show ?thesis
    by (simp add: calculateCompletionStats_def Object_values_def c percentage_examples
        del: map_append)
qed

subsection \<open>Retry backoff\<close>

lemma calculateRetryDelay_uncapped: "n < 6 \<Longrightarrow> calculateRetryDelay n = 1000 * 2 ^ n"
proof -
  assume "n < 6"
  then have "(2::nat) ^ n \<le> 2 ^ 5"
    by (intro power_increasing) simp_all
  then show ?thesis
    by (simp add: calculateRetryDelay_def BASE_RETRY_DELAY_MS_def BACKOFF_MULTIPLIER_def
        MAX_RETRY_DELAY_MS_def)
qed

lemma calculateRetryDelay_capped: "6 \<le> n \<Longrightarrow> calculateRetryDelay n = 60000"
proof -
  assume "6 \<le> n"
  then have "(2::nat) ^ 6 \<le> 2 ^ n"
    by (intro power_increasing) simp_all
  then show ?thesis
    by (simp add: calculateRetryDelay_def BASE_RETRY_DELAY_MS_def BACKOFF_MULTIPLIER_def
        MAX_RETRY_DELAY_MS_def)
qed

subsection \<open>The outbox\<close>

lemma attempt_after_upload:
  assumes "ps_status p = sheets_done" and "ps_pdfStatus p = uploaded"
  shows "attempt client now p =
           ((case client sheets_update p of
               Inl failure \<Rightarrow> record_failure now sheets_update failure p
             | Inr receipt \<Rightarrow> p\<lparr>ps_status := complete, ps_completedAt := Some now\<rparr>),
            [sheets_update])"
  using assms
  by (simp add: attempt_def pipeline_def step_completed_def record_success_def
      split: sum.splits)

lemma attempt_skips_completed:
  assumes "step \<in> set (snd (attempt client now p))"
  shows "\<not> step_completed p step"
proof -
  have "\<forall>step\<in>set (snd (attempt client now p)). \<not> step_completed p step"
    by (cases "ps_status p"; cases "ps_pdfStatus p")
       (auto simp: attempt_def pipeline_def step_completed_def record_success_def
          split: sum.splits prod.splits)
  with assms show ?thesis by blast
qed

lemma attempt_enqueued:
  "attempt reachable 1700000121000 enqueued =
     (enqueued\<lparr>ps_sheetsRowId := Some ''row-7'', ps_driveFileId := Some ''file-9'',
                ps_driveFileUrl := Some ''https://drive.google.com/file/d/file-9/view'',
                ps_pdfStatus := uploaded, ps_status := complete,
                ps_completedAt := Some 1700000121000\<rparr>,
      [sheets_write, pdf_generate, pdf_upload, sheets_update])"
  by (simp add: attempt_def pipeline_def step_completed_def record_success_def
      reachable_def enqueued_def)

section \<open>Verified properties\<close>

text \<open>
  C1. The claim: for every instance produced by \<^verbatim>\<open>startChecklist\<close> the counters add up
  to \<^verbatim>\<open>totalTasks\<close>. \<^verbatim>\<open>calculateCompletionStats\<close> does count every entry of the
  task map once and computes the percentage by the stated formula, in the arithmetic
  of doubles, so its output is as claimed for a map of \<^verbatim>\<open>totalTasks\<close> entries
  (\<open>calculateCompletionStats_invariant\<close>),
  and \<^verbatim>\<open>updateTask\<close> keeps the counters equal to the size of the map
  (\<open>updateTask_counters\<close>); but the instance takes
  \<^verbatim>\<open>totalTasks\<close> from the template's hardcoded constant, which is not the number of
  tasks the template lists. On a device whose configuration is stored and whose
  browser provides \<^verbatim>\<open>crypto.randomUUID\<close>, the instance that \<^verbatim>\<open>startChecklist\<close>
  persists has doneCount + notDoneCount + naCount = 34 against totalTasks = 32 for
  \<^verbatim>\<open>pass_opening\<close>, 35 against 30 for \<^verbatim>\<open>floor_opening\<close>, and 49 against 38 for
  \<^verbatim>\<open>closing\<close>.
\<close>

theorem startChecklist_counters_exceed_totalTasks:
  assumes "hasRandomUUID w" and "db_deviceConfig w = Some cfg"
  shows "map_option (\<lambda>c. (ci_doneCount c + ci_notDoneCount c + ci_naCount c, ci_totalTasks c))
           (checklists_get (randomSource w (randomDrawn w)) (snd (startChecklist t r (s, w))))
         = Some (case t of pass_opening \<Rightarrow> (34, 32) | floor_opening \<Rightarrow> (35, 30)
                 | closing \<Rightarrow> (49, 38))"
  by (cases t)
     (simp_all add: startChecklist_persisted [OF assms] getAllTaskIds_length
        getTemplate_totalTasks)

theorem startChecklist_counters_exceed_totalTasks_witness:
  "hasRandomUUID tablet \<and> db_deviceConfig tablet = Some cfgA
   \<and> map_option (\<lambda>c. (ci_doneCount c + ci_notDoneCount c + ci_naCount c, ci_totalTasks c))
        (checklists_get ''u'' (snd (startChecklist pass_opening ann (idle, tablet))))
      = Some (34, 32)"
  using startChecklist_counters_exceed_totalTasks [of tablet cfgA pass_opening ann idle]
  by (simp add: tablet_def)

text \<open>
  C2. The claim: once the lockout has elapsed, the next verify resets the manager to
  zero failed attempts and evaluates the PIN normally. The code writes the reset to
  the table but goes on with the row it read before the reset, so a wrong PIN is
  counted on top of the old count: for a manager whose lockout has run out and whose
  stored count is 2 or more (a lockout leaves 3), one wrong PIN answers
  \<^verbatim>\<open>account_locked\<close> with 300 seconds and locks the account again, with the count
  raised by one. The rest of the state machine is as claimed: while locked, any PIN
  is refused and nothing is written (\<open>verifyManagerPin_while_locked\<close>); without a
  lock a wrong PIN raises the count and answers \<^verbatim>\<open>invalid_pin\<close> with
  3 - failedAttempts attempts left, or locks for 300 seconds at 3
  (\<open>verifyManagerPin_mismatch_unlocked\<close>); the right PIN after the lockout succeeds
  and resets (\<open>verifyManagerPin_match_after_expiry\<close>).
\<close>

theorem verifyManagerPin_relocks_after_expiry:
  assumes row: "staff_get managerId w = Some mgr" and role: "st_role mgr = manager"
    and locked: "st_lockedUntil mgr = Some lockExpiry" and expired: "lockExpiry \<le> clock w"
    and count: "st_failedAttempts mgr = Some n" and n: "2 \<le> n"
    and cfg: "db_deviceConfig w = Some cfg"
    and wrong: "Some (H (dc_pinSalt cfg @ '':'' @ managerId @ '':'' @ pin)) \<noteq> st_pinHash mgr"
  shows "fst (verifyManagerPin H managerId pin w) =
           \<lparr>pv_success = False, pv_error = Some account_locked,
            pv_lockoutRemaining = Some 300, pv_attemptsRemaining = None\<rparr>
       \<and> staff_get managerId (snd (verifyManagerPin H managerId pin w)) =
           Some (mgr\<lparr>st_failedAttempts := Some (n + 1),
                      st_lockedUntil := Some (clock w + 300000)\<rparr>)"
proof -
  let ?reset = "\<lambda>r. r\<lparr>st_failedAttempts := Some 0, st_lockedUntil := None\<rparr>"
  let ?lock = "\<lambda>r. r\<lparr>st_failedAttempts := Some (n + 1),
                        st_lockedUntil := Some (clock w + LOCKOUT_DURATION_MS)\<rparr>"
  let ?w1 = "staff_update managerId ?reset w"
  have id: "st_id mgr = managerId" by (rule staff_get_id [OF row])
  have r1: "staff_get managerId ?w1 = Some (?reset mgr)"
    by (rule staff_get_update [OF row]) (simp add: id)
  have r2: "staff_get managerId (staff_update managerId ?lock ?w1) = Some (?lock (?reset mgr))"
    by (rule staff_get_update [OF r1]) (simp add: id)
  have h: "hashPin H managerId pin ?w1 =
             (Inr (H (dc_pinSalt cfg @ '':'' @ managerId @ '':'' @ pin)), ?w1)"
    by (rule hashPin_existing) (simp add: cfg)
  have v: "verifyManagerPin H managerId pin w =
             (\<lparr>pv_success = False, pv_error = Some account_locked,
               pv_lockoutRemaining = Some 300, pv_attemptsRemaining = None\<rparr>,
              staff_update managerId ?lock ?w1)"
    using role locked expired count n wrong
    by (simp add: verifyManagerPin_def row h lockout_seconds MAX_ATTEMPTS_def Let_def)
  show ?thesis
    using r2 by (simp add: v LOCKOUT_DURATION_MS_def)
qed

theorem verifyManagerPin_relocks_after_expiry_witness:
  "fst (verifyManagerPin stub_digest ''m1'' ''0000'' tablet_after_lockout) =
     \<lparr>pv_success = False, pv_error = Some account_locked,
      pv_lockoutRemaining = Some 300, pv_attemptsRemaining = None\<rparr>
   \<and> staff_get ''m1'' (snd (verifyManagerPin stub_digest ''m1'' ''0000'' tablet_after_lockout)) =
     Some (morgan_locked_out\<lparr>st_failedAttempts := Some 4,
                               st_lockedUntil := Some 1700000300000\<rparr>)"
proof -
  have row: "staff_get ''m1'' tablet_after_lockout = Some morgan_locked_out"
    by (simp add: staff_get_def tablet_after_lockout_def tablet_def morgan_locked_out_def
        morgan_def)
  have role: "st_role morgan_locked_out = manager"
    by (simp add: morgan_locked_out_def morgan_def)
  have locked: "st_lockedUntil morgan_locked_out = Some 1699999999000"
    by (simp add: morgan_locked_out_def)
  have expired: "1699999999000 \<le> clock tablet_after_lockout"
    by (simp add: tablet_after_lockout_def tablet_def)
  have count: "st_failedAttempts morgan_locked_out = Some 3"
    by (simp add: morgan_locked_out_def)
  have cfg: "db_deviceConfig tablet_after_lockout = Some cfgA"
    by (simp add: tablet_after_lockout_def tablet_def)
  have wrong: "Some (stub_digest (dc_pinSalt cfgA @ '':'' @ ''m1'' @ '':'' @ ''0000''))
                 \<noteq> st_pinHash morgan_locked_out"
    by (simp add: morgan_locked_out_def morgan_def stub_digest_def cfgA_def)
  have clk: "clock tablet_after_lockout = 1700000000000"
    by (simp add: tablet_after_lockout_def tablet_def)
  have n: "2 \<le> (3::nat)" by simp
  from verifyManagerPin_relocks_after_expiry
         [where H = stub_digest and pin = "''0000''", OF row role locked expired count n cfg wrong]
  show ?thesis by (simp add: clk)
qed

text \<open>
  C3. The claim: manager approval enqueues exactly one \<^verbatim>\<open>PendingSubmission\<close>. In the
  code, approving the ready pass-opening checklist with the manager's own PIN sets its
  status to \<^verbatim>\<open>approved\<close> and \<^verbatim>\<open>approvedAt\<close> to the time of approval, in the page
  state and in the \<^verbatim>\<open>checklists\<close> table, and leaves the \<^verbatim>\<open>submissions\<close> table
  empty.
\<close>

theorem approval_without_submission:
  "map_option ci_status
     (pg_checklist (fst (handleVerifyPin stub_digest (Some morgan) [] ''4821''
                           (page_review, tablet_ready)))) = Some approved
   \<and> map_option ci_approvedAt
     (pg_checklist (fst (handleVerifyPin stub_digest (Some morgan) [] ''4821''
                           (page_review, tablet_ready)))) = Some (Some 1700000120000)
   \<and> map_option ci_status
     (checklists_get ''u'' (snd (handleVerifyPin stub_digest (Some morgan) [] ''4821''
                           (page_review, tablet_ready)))) = Some approved
   \<and> map_option ci_approvedAt
     (checklists_get ''u'' (snd (handleVerifyPin stub_digest (Some morgan) [] ''4821''
                           (page_review, tablet_ready)))) = Some (Some 1700000120000)
   \<and> db_submissions (snd (handleVerifyPin stub_digest (Some morgan) [] ''4821''
                           (page_review, tablet_ready))) = []"
proof -
  have chk: "pg_checklist page_review = Some ready_shift"
    by (simp add: page_review_def)
  have w: "clock tablet_ready = 1700000120000" "db_submissions tablet_ready = []"
    by (simp_all add: tablet_ready_def tablet_def)
  have c: "ci_id ready_shift = ''u''"
    by (simp add: ready_shift_def pass_shift_def)
  from handleVerifyPin_effect [OF chk morgan_verifies, of "[]"] show ?thesis
    by (simp add: w c)
qed

text \<open>
  C3, as the code has it. With a manager selected in the modal and a checklist
  loaded on the page: when the PIN verifies, the checklist is changed in five fields
  and no other (status \<^verbatim>\<open>approved\<close>; \<^verbatim>\<open>manager\<close> the selected manager's id and
  name with role manager; \<^verbatim>\<open>approvedAt\<close> and \<^verbatim>\<open>lastModifiedAt\<close> the time of
  approval; \<^verbatim>\<open>shiftNotes\<close> the notes that the verifying callback holds, which are the
  text of the notes field as it stood when the PIN last changed before its final
  digit, absent when that text is empty), it is stored under its id and becomes the
  page's checklist, the modal is closed and the browser is sent to the home page; the
  \<^verbatim>\<open>submissions\<close> table and the audit log are left as they were. When the PIN does
  not verify, the page and the \<^verbatim>\<open>checklists\<close> and \<^verbatim>\<open>submissions\<close> tables and the
  audit log are unchanged.
\<close>

theorem approval_enqueues_nothing:
  assumes "pg_checklist p = Some c"
    and "verifyManagerPin H (st_id m) pinValue w = (result, w1)"
  shows "if pv_success result
         then fst (handleVerifyPin H (Some m) capturedNotes pinValue (p, w)) =
                p\<lparr>pg_checklist :=
                     Some (c\<lparr>ci_status := approved,
                             ci_manager := Some \<lparr>ref_id = st_id m, ref_name = st_name m,
                                                  ref_role = manager\<rparr>,
                             ci_approvedAt := Some (clock w),
                             ci_shiftNotes :=
                               (if capturedNotes = [] then None else Some capturedNotes),
                             ci_lastModifiedAt := clock w\<rparr>),
                   pg_showManagerAuth := False, pg_route := Some ''/''\<rparr>
            \<and> checklists_get (ci_id c)
                (snd (handleVerifyPin H (Some m) capturedNotes pinValue (p, w))) =
                Some (c\<lparr>ci_status := approved,
                        ci_manager := Some \<lparr>ref_id = st_id m, ref_name = st_name m,
                                             ref_role = manager\<rparr>,
                        ci_approvedAt := Some (clock w),
                        ci_shiftNotes :=
                          (if capturedNotes = [] then None else Some capturedNotes),
                        ci_lastModifiedAt := clock w\<rparr>)
            \<and> db_submissions (snd (handleVerifyPin H (Some m) capturedNotes pinValue (p, w)))
              = db_submissions w
            \<and> db_auditLog (snd (handleVerifyPin H (Some m) capturedNotes pinValue (p, w)))
              = db_auditLog w
         else fst (handleVerifyPin H (Some m) capturedNotes pinValue (p, w)) = p
            \<and> db_checklists (snd (handleVerifyPin H (Some m) capturedNotes pinValue (p, w)))
              = db_checklists w
            \<and> db_submissions (snd (handleVerifyPin H (Some m) capturedNotes pinValue (p, w)))
              = db_submissions w
            \<and> db_auditLog (snd (handleVerifyPin H (Some m) capturedNotes pinValue (p, w)))
              = db_auditLog w"
  by (rule handleVerifyPin_effect [OF assms])

theorem approval_enqueues_nothing_witness:
  "pg_checklist page_review = Some ready_shift
   \<and> pv_success (fst (verifyManagerPin stub_digest (st_id morgan) ''4821'' tablet_ready))
   \<and> fst (handleVerifyPin stub_digest (Some morgan) ''Fridge 2 serviced'' ''4821''
            (page_review, tablet_ready)) =
       \<lparr>pg_checklist =
          Some (ready_shift\<lparr>ci_status := approved,
                  ci_manager := Some \<lparr>ref_id = ''m1'', ref_name = ''Morgan'', ref_role = manager\<rparr>,
                  ci_approvedAt := Some 1700000120000,
                  ci_shiftNotes := Some ''Fridge 2 serviced'',
                  ci_lastModifiedAt := 1700000120000\<rparr>),
        pg_error = None, pg_showManagerAuth = False, pg_route = Some ''/''\<rparr>
   \<and> checklists_get ''u''
        (snd (handleVerifyPin stub_digest (Some morgan) ''Fridge 2 serviced'' ''4821''
                (page_review, tablet_ready))) =
       Some (ready_shift\<lparr>ci_status := approved,
               ci_manager := Some \<lparr>ref_id = ''m1'', ref_name = ''Morgan'', ref_role = manager\<rparr>,
               ci_approvedAt := Some 1700000120000,
               ci_shiftNotes := Some ''Fridge 2 serviced'',
               ci_lastModifiedAt := 1700000120000\<rparr>)
   \<and> db_submissions (snd (handleVerifyPin stub_digest (Some morgan) ''Fridge 2 serviced'' ''4821''
                            (page_review, tablet_ready))) = []
   \<and> db_auditLog (snd (handleVerifyPin stub_digest (Some morgan) ''Fridge 2 serviced'' ''4821''
                            (page_review, tablet_ready))) = []"
proof -
  have chk: "pg_checklist page_review = Some ready_shift"
    by (simp add: page_review_def)
  have w: "clock tablet_ready = 1700000120000" "db_submissions tablet_ready = []"
    "db_auditLog tablet_ready = []"
    by (simp_all add: tablet_ready_def tablet_def)
  have m: "st_id morgan = ''m1''" "st_name morgan = ''Morgan''"
    by (simp_all add: morgan_def)
  have c: "ci_id ready_shift = ''u''"
    by (simp add: ready_shift_def pass_shift_def)
  have ok: "pv_success (fst (verifyManagerPin stub_digest (st_id morgan) ''4821'' tablet_ready))"
    by (simp add: morgan_verifies)
  from approval_enqueues_nothing [OF chk morgan_verifies, of "''Fridge 2 serviced''"] ok
  show ?thesis
    by (simp add: chk w m c) (simp add: page_review_def)
qed

text \<open>
  C4. For every submission with \<^verbatim>\<open>status = sheets_done\<close> and
  \<^verbatim>\<open>pdfStatus = uploaded\<close>, whatever the external client answers, an attempt of the
  outbox makes exactly one call, the \<^verbatim>\<open>sheets_update\<close> step, and persists its
  outcome: on success the submission is \<^verbatim>\<open>complete\<close> with \<^verbatim>\<open>completedAt\<close> set, on
  failure the failure is recorded. In general, for every submission, an attempt makes
  no call for a step that the persisted \<^verbatim>\<open>status\<close> and \<^verbatim>\<open>pdfStatus\<close> record as
  completed. The outbox is the one of section 4.3 of the spec; the endpoint of
  route.ts has no part in the rule: it is given the submission id and the snapshot,
  not the persisted status, and answers every valid request alike (\<open>POST_valid\<close>).
\<close>

theorem attempt_resumes_at_sheets_update:
  assumes "ps_status p = sheets_done" and "ps_pdfStatus p = uploaded"
  shows "snd (attempt client now p) = [sheets_update]
       \<and> fst (attempt client now p) =
           (case client sheets_update p of
              Inl failure \<Rightarrow> record_failure now sheets_update failure p
            | Inr receipt \<Rightarrow> p\<lparr>ps_status := complete, ps_completedAt := Some now\<rparr>)
       \<and> (\<forall>step\<in>set (snd (attempt client now q)). \<not> step_completed q step)"
  using attempt_after_upload [OF assms, of client now] attempt_skips_completed [of _ client now q]
  by auto

theorem attempt_resumes_at_sheets_update_witness:
  "ps_status uploaded_submission = sheets_done
   \<and> ps_pdfStatus uploaded_submission = uploaded
   \<and> attempt reachable 1700000130000 uploaded_submission =
       (uploaded_submission\<lparr>ps_status := complete, ps_completedAt := Some 1700000130000\<rparr>,
        [sheets_update])
   \<and> snd (attempt unreachable 1700000130000 uploaded_submission) = [sheets_update]
   \<and> ps_retryCount (fst (attempt unreachable 1700000130000 uploaded_submission)) = 3
   \<and> ps_status (fst (attempt unreachable 1700000130000 uploaded_submission)) = sheets_done
   \<and> snd (attempt reachable 1700000121000 enqueued) =
       [sheets_write, pdf_generate, pdf_upload, sheets_update]"
proof -
  have st: "ps_status uploaded_submission = sheets_done"
    "ps_pdfStatus uploaded_submission = uploaded"
    by (simp_all add: uploaded_submission_def)
  have f: "record_failure 1700000130000 sheets_update timed_out uploaded_submission =
             uploaded_submission
               \<lparr>ps_errorLog := ps_errorLog uploaded_submission @
                   [\<lparr>se_timestamp = 1700000130000, se_step = sheets_update,
                     se_message = ''timeout'', se_statusCode = None, se_retryable = True\<rparr>],
                ps_retryCount := 3, ps_lastAttemptAt := Some 1700000130000\<rparr>"
    by (simp add: record_failure_def timed_out_def uploaded_submission_def enqueued_def)
  from attempt_resumes_at_sheets_update [OF st, of reachable 1700000130000 enqueued]
  have a: "attempt reachable 1700000130000 uploaded_submission =
       (uploaded_submission\<lparr>ps_status := complete, ps_completedAt := Some 1700000130000\<rparr>,
        [sheets_update])"
    by (simp add: reachable_def prod_eq_iff)
  from attempt_resumes_at_sheets_update [OF st, of unreachable 1700000130000 enqueued]
  have b: "snd (attempt unreachable 1700000130000 uploaded_submission) = [sheets_update]"
    "fst (attempt unreachable 1700000130000 uploaded_submission) =
       uploaded_submission
         \<lparr>ps_errorLog := ps_errorLog uploaded_submission @
             [\<lparr>se_timestamp = 1700000130000, se_step = sheets_update,
               se_message = ''timeout'', se_statusCode = None, se_retryable = True\<rparr>],
          ps_retryCount := 3, ps_lastAttemptAt := Some 1700000130000\<rparr>"
    by (simp_all add: unreachable_def f)
  have e: "snd (attempt reachable 1700000121000 enqueued) =
       [sheets_write, pdf_generate, pdf_upload, sheets_update]"
    by (simp add: attempt_enqueued)
  show ?thesis
    by (simp add: st a b e)
qed

text \<open>
  C5. For every natural number retryCount the retry delay is
  min(1000 * 2^retryCount, 60000) milliseconds; at retryCount 0 and 1 it is exactly
  1000 and 2000.
\<close>

theorem calculateRetryDelay_backoff:
  "calculateRetryDelay n = min (1000 * 2 ^ n) 60000
   \<and> calculateRetryDelay 0 = 1000
   \<and> calculateRetryDelay 1 = 2000"
  by (simp add: calculateRetryDelay_def BASE_RETRY_DELAY_MS_def
      BACKOFF_MULTIPLIER_def MAX_RETRY_DELAY_MS_def)



text \<open>
  C7. The claim: \<^verbatim>\<open>startChecklist\<close> appends a \<^verbatim>\<open>checklist_started\<close> audit entry.
  In the code no call of \<^verbatim>\<open>startChecklist\<close>, in any state of the device, appends an
  audit entry or sets the current checklist, and every call ends in the
  \<^verbatim>\<open>catch\<close>: where the browser provides \<^verbatim>\<open>crypto.randomUUID\<close>, \<^verbatim>\<open>generateUUID\<close>
  of lib/db never returns (a \<open>RangeError\<close>, raised inside \<^verbatim>\<open>logAuditEntry\<close> after the
  instance was stored, or inside \<^verbatim>\<open>getDeviceId\<close> on a fresh device); where it does
  not, the store's own \<^verbatim>\<open>crypto.randomUUID()\<close> is a \<open>TypeError\<close>.
\<close>

theorem startChecklist_never_audits:
  "db_auditLog (snd (startChecklist t r sw)) = db_auditLog (snd sw)
   \<and> currentChecklist (fst (startChecklist t r sw)) = currentChecklist (fst sw)
   \<and> error (fst (startChecklist t r sw)) =
       Some (Thrown (if hasRandomUUID (snd sw) then RangeError else TypeError))"
proof (cases sw)
  case (Pair s w)
  show ?thesis
  proof (cases "hasRandomUUID w")
    case True
    with startChecklist_native [OF True, of t r s] Pair show ?thesis by simp
  next
    case False
    with startChecklist_fallback [OF False, of t r s] Pair show ?thesis by simp
  qed
qed

text \<open>
  C8. The claim: whenever an instance with the template id and status
  \<^verbatim>\<open>in_progress\<close> or \<^verbatim>\<open>pending_review\<close> is stored, \<^verbatim>\<open>checkForActiveSessions\<close>
  returns a snapshot of the most recently modified one. The code builds the snapshot
  with \<^verbatim>\<open>session.startedBy.name\<close>, and the rows that the checklist page stores have
  no \<^verbatim>\<open>startedBy\<close>: when the matching row modified last is such a row, the read
  throws, the \<^verbatim>\<open>catch\<close> returns \<^verbatim>\<open>null\<close>, and the result is nothing although an
  active session is stored. Opening the closing checklist's page on the tablet and
  then asking for the active closing sessions is the example. Where every matching row
  has its \<^verbatim>\<open>startedBy\<close> the result is as claimed
  (\<open>checkForActiveSessions_started_rows\<close>, \<open>checkForActiveSessions_none\<close>).
\<close>

theorem checkForActiveSessions_misses_row_without_startedBy:
  assumes mem: "session \<in> set (db_checklists w)" and act: "is_active_for t session"
    and nostart: "ci_startedBy session = None"
    and newest: "\<forall>c\<in>set (db_checklists w).
                   is_active_for t c \<and> c \<noteq> session
                     \<longrightarrow> ci_lastModifiedAt c < ci_lastModifiedAt session"
  shows "fst (checkForActiveSessions t w) = None"
proof (cases "getDeviceId w")
  case (Pair res w1)
  show ?thesis
  proof (cases res)
    case (Inl e)
    with Pair show ?thesis by (simp add: checkForActiveSessions_def)
  next
    case (Inr deviceId)
    have dev: "getDeviceId w = (Inr deviceId, w1)"
      using Pair Inr by simp
    have ne: "filter (is_active_for t) (db_checklists w) \<noteq> []"
      using mem act by (auto simp: filter_empty_conv)
    from checkForActiveSessions_some [OF dev ne] obtain h rest
      where m: "most_recent_first (filter (is_active_for t) (db_checklists w)) = h # rest"
        and r: "fst (checkForActiveSessions t w) =
               map_option
                 (\<lambda>startedBy.
                    \<lparr>as_checklistId = ci_id h, as_templateId = ci_templateId h,
                     as_templateName = ci_templateName h,
                     as_staffName = ref_name startedBy,
                     as_deviceId = ci_deviceId h, as_startedAt = ci_startedAt h,
                     as_lastActivityAt = ci_lastModifiedAt h,
                     as_completionPercentage = ci_completionPercentage h,
                     as_isOwnDevice = (ci_deviceId h = deviceId)\<rparr>)
                 (ci_startedBy h)"
      by blast
    from most_recent_first_head [OF m]
    have h: "h \<in> set (db_checklists w)" "is_active_for t h"
      "ci_lastModifiedAt session \<le> ci_lastModifiedAt h"
      using mem act by auto
    have "h = session"
    proof (rule ccontr)
      assume "h \<noteq> session"
      with newest h(1,2) have "ci_lastModifiedAt h < ci_lastModifiedAt session" by blast
      with h(3) show False by simp
    qed
    with r nostart show ?thesis by simp
  qed
qed

theorem checkForActiveSessions_misses_row_without_startedBy_witness:
  "db_checklists (snd (loadData closing None (page_blank, tablet))) = [page_row]
   \<and> is_active_for closing page_row
   \<and> ci_startedBy page_row = None
   \<and> fst (checkForActiveSessions closing (snd (loadData closing None (page_blank, tablet))))
       = None"
proof -
  have rows: "db_checklists (snd (loadData closing None (page_blank, tablet))) = [page_row]"
    by (simp add: loadData_on_tablet)
  have act: "is_active_for closing page_row"
    by (simp add: is_active_for_def page_row_def)
  have nostart: "ci_startedBy page_row = None"
    by (simp add: page_row_def)
  have mem: "page_row \<in> set (db_checklists (snd (loadData closing None (page_blank, tablet))))"
    by (simp add: rows)
  have newest: "\<forall>c\<in>set (db_checklists (snd (loadData closing None (page_blank, tablet)))).
                   is_active_for closing c \<and> c \<noteq> page_row
                     \<longrightarrow> ci_lastModifiedAt c < ci_lastModifiedAt page_row"
    by (simp add: rows)
  from checkForActiveSessions_misses_row_without_startedBy [OF mem act nostart newest]
  show ?thesis by (simp add: rows act nostart)
qed

text \<open>
  C9. The claim: every request to the endpoint in which \<^verbatim>\<open>submissionId\<close> is missing
  or a required snapshot field is absent is rejected with status 400 and a failure
  body, and is treated as non-retryable. A request whose body is not JSON (an empty
  body, say) carries no \<^verbatim>\<open>submissionId\<close>; the handler answers it with status 500
  and a failure body, and a 5xx status is of the class that is retried.
\<close>

theorem POST_unparsable_body_is_500:
  "POST None =
     \<lparr>http_status = 500,
      http_body =
        \<lparr>resp_success = False, resp_submissionId = Some (JStr ''unknown''),
         resp_status = failed, resp_sheetsRowId = None, resp_driveFileId = None,
         resp_driveFileUrl = None, resp_error = Some (Thrown SyntaxError)\<rparr>\<rparr>
   \<and> retry_class (http_status (POST None)) = Some Retryable"
  by (simp add: POST_def failure_response_def retry_class_def)

text \<open>
  C9, as the code has it. For every request whose body parses as JSON: if
  \<^verbatim>\<open>submissionId\<close> is missing, or any of the sixteen required snapshot fields is
  absent (the snapshot itself missing included), the handler answers with status 400,
  which is of the non-retryable class, and with the failure body: \<^verbatim>\<open>success: false\<close>,
  \<^verbatim>\<open>status: 'failed'\<close>, the error text \<^verbatim>\<open>Invalid request payload\<close>, and for
  \<^verbatim>\<open>submissionId\<close> the one received, or \<^verbatim>\<open>unknown\<close> if that is missing or
  falsy.
\<close>

theorem POST_rejects_missing_fields:
  assumes "get_member (Some body) ''submissionId'' = None
           \<or> (\<exists>field\<in>set requiredFields.
                  \<not> has_property field (get_member (Some body) ''snapshot''))"
  shows "POST (Some body) =
           \<lparr>http_status = 400,
            http_body =
              \<lparr>resp_success = False,
               resp_submissionId = or_unknown (get_member (Some body) ''submissionId''),
               resp_status = failed, resp_sheetsRowId = None, resp_driveFileId = None,
               resp_driveFileUrl = None,
               resp_error = Some (Message ''Invalid request payload'')\<rparr>\<rparr>
       \<and> retry_class (http_status (POST (Some body))) = Some NonRetryable"
proof -
  have "\<not> validateSubmission body"
    using assms validateSubmission_needs_fields [of body]
    by (auto simp: list_all_iff)
  then show ?thesis
    by (simp add: POST_invalid failure_response_def retry_class_def)
qed

theorem POST_rejects_missing_fields_witness:
  "(get_member (Some body_without_deviceId) ''submissionId'' = None
     \<or> (\<exists>field\<in>set requiredFields.
            \<not> has_property field (get_member (Some body_without_deviceId) ''snapshot'')))
   \<and> POST (Some body_without_deviceId) =
       \<lparr>http_status = 400,
        http_body =
          \<lparr>resp_success = False, resp_submissionId = Some (JStr ''sub-1''),
           resp_status = failed, resp_sheetsRowId = None, resp_driveFileId = None,
           resp_driveFileUrl = None,
           resp_error = Some (Message ''Invalid request payload'')\<rparr>\<rparr>
   \<and> retry_class (http_status (POST (Some body_without_deviceId))) = Some NonRetryable"
proof -
  have missing: "\<not> has_property ''deviceId'' (get_member (Some body_without_deviceId) ''snapshot'')"
    by (simp add: body_without_deviceId_def snapshot_fields_def)
  have "''deviceId'' \<in> set requiredFields"
    by (simp add: requiredFields_def)
  with missing have h: "get_member (Some body_without_deviceId) ''submissionId'' = None
     \<or> (\<exists>field\<in>set requiredFields.
            \<not> has_property field (get_member (Some body_without_deviceId) ''snapshot''))"
    by blast
  have sid: "or_unknown (get_member (Some body_without_deviceId) ''submissionId'')
               = Some (JStr ''sub-1'')"
    by (simp add: or_unknown_def body_without_deviceId_def)
  note r = POST_rejects_missing_fields [OF h]
  from r have p1: "POST (Some body_without_deviceId) =
       \<lparr>http_status = 400,
        http_body =
          \<lparr>resp_success = False, resp_submissionId = Some (JStr ''sub-1''),
           resp_status = failed, resp_sheetsRowId = None, resp_driveFileId = None,
           resp_driveFileUrl = None,
           resp_error = Some (Message ''Invalid request payload'')\<rparr>\<rparr>"
    by (simp add: sid)
  have p2: "retry_class (http_status (POST (Some body_without_deviceId)))
              = Some NonRetryable"
    by (rule conjunct2 [OF r])
  from h p1 p2 show ?thesis by (intro conjI)
qed

text \<open>
  C10. For every \<^verbatim>\<open>updateTask\<close> call on an active checklist, whatever the new status,
  the entry written (in the store and in the table) has \<^verbatim>\<open>completedAt\<close> set to the
  time of the update and \<^verbatim>\<open>completedBy\<close> set to the checklist's \<^verbatim>\<open>startedBy\<close>.
  The operation takes a task id, a status, a note and an input value, and no staff
  reference, so nobody else can be recorded.
\<close>

theorem updateTask_completedBy_is_starter:
  assumes "currentChecklist s = Some c"
  shows "map_option (\<lambda>e. (tc_completedAt e, tc_completedBy e))
           (current_task taskId (fst (updateTask taskId status note inputValue (s, w))))
         = Some (Some (clock w), ci_startedBy c)
       \<and> map_option (\<lambda>e. (tc_completedAt e, tc_completedBy e))
           (stored_task (ci_id c) taskId (snd (updateTask taskId status note inputValue (s, w))))
         = Some (Some (clock w), ci_startedBy c)"
  using updateTask_entry [OF assms, of taskId status "note" inputValue w] by simp

theorem updateTask_completedBy_is_starter_witness:
  "currentChecklist working = Some pass_shift
   \<and> map_option (\<lambda>e. (tc_completedAt e, tc_completedBy e))
        (current_task ''pass_3''
           (fst (updateTask ''pass_3'' task_done (Some ''wiped by Ben'') None (working, tablet_working))))
      = Some (Some 1700000060000, Some ann)
   \<and> map_option (\<lambda>e. (tc_completedAt e, tc_completedBy e))
        (stored_task ''u'' ''pass_3''
           (snd (updateTask ''pass_3'' task_done (Some ''wiped by Ben'') None (working, tablet_working))))
      = Some (Some 1700000060000, Some ann)"
proof -
  have cur: "currentChecklist working = Some pass_shift"
    by (simp add: working_def idle_def)
  have facts: "ci_id pass_shift = ''u''" "ci_startedBy pass_shift = Some ann"
    "clock tablet_working = 1700000060000"
    by (simp_all add: pass_shift_def tablet_working_def)
  from updateTask_completedBy_is_starter
         [OF cur, of "''pass_3''" task_done "Some ''wiped by Ben''" None tablet_working]
  show ?thesis by (simp add: cur facts)
qed

end
